theory Spec2Isabelle
  imports Main
begin

section \<open>Python strings\<close>

text \<open>
  A Python \<open>str\<close> is modelled as a \<open>string\<close>; one \<open>char\<close> stands for one code point
  below 256. The helpers below are the \<open>str\<close> methods the actions call.
\<close>

abbreviation NL :: char where "NL \<equiv> CHR 0x0A"

text \<open>The code points below 256 for which \<open>str.isspace\<close> holds; the class \<open>\s\<close> of
  \<open>re\<close> and \<open>str.strip\<close> use the same test.\<close>

definition whitespace_chars :: "char list" where
  "whitespace_chars =
     [CHR 0x09, CHR 0x0A, CHR 0x0B, CHR 0x0C, CHR 0x0D, CHR 0x1C, CHR 0x1D, CHR 0x1E,
      CHR 0x1F, CHR 0x20, CHR 0x85, CHR 0xA0]"

definition isspace :: "char \<Rightarrow> bool" where
  "isspace c = (c \<in> set whitespace_chars)"

text \<open>\<open>s.strip()\<close>\<close>

definition lstrip :: "string \<Rightarrow> string" where
  "lstrip s = dropWhile isspace s"

definition rstrip :: "string \<Rightarrow> string" where
  "rstrip s = rev (dropWhile isspace (rev s))"

definition strip :: "string \<Rightarrow> string" where
  "strip s = rstrip (lstrip s)"

text \<open>\<open>s.split(sep)\<close> for a one-character separator: \<open>n\<close> separators give \<open>n + 1\<close> pieces,
  and the empty string gives one empty piece.\<close>

fun str_split :: "char \<Rightarrow> string \<Rightarrow> string list" where
  "str_split sep [] = [[]]"
| "str_split sep (c # cs) =
     (if c = sep then [] # str_split sep cs
      else (case str_split sep cs of
              [] \<Rightarrow> [[c]]
            | l # ls \<Rightarrow> (c # l) # ls))"

text \<open>\<open>sep.join(xs)\<close>\<close>

fun str_join :: "string \<Rightarrow> string list \<Rightarrow> string" where
  "str_join sep [] = []"
| "str_join sep [x] = x"
| "str_join sep (x # y # ys) = x @ sep @ str_join sep (y # ys)"

text \<open>\<open>s.endswith(suffix)\<close>\<close>

definition endswith :: "string \<Rightarrow> string \<Rightarrow> bool" where
  "endswith s suffix =
     (length suffix \<le> length s \<and> drop (length s - length suffix) s = suffix)"

text \<open>\<open>sub in s\<close> on strings.\<close>

fun startswith :: "string \<Rightarrow> string \<Rightarrow> bool" where
  "startswith s [] = True"
| "startswith [] (p # ps) = False"
| "startswith (c # cs) (p # ps) = (c = p \<and> startswith cs ps)"

fun contains :: "string \<Rightarrow> string \<Rightarrow> bool" where
  "contains [] sub = (sub = [])"
| "contains (c # cs) sub = (startswith (c # cs) sub \<or> contains cs sub)"

section \<open>The line-based actions\<close>

text \<open>\<open>EmptyLineRemovalAction.apply\<close>\<close>

definition empty_line_removal :: "string \<Rightarrow> string" where
  "empty_line_removal code =
     (let lines = str_split NL code;
          non_empty_lines = filter (\<lambda>line. strip line \<noteq> []) lines
      in str_join [NL] non_empty_lines)"

text \<open>The loop of \<open>LineJoiningAction.apply\<close>: \<open>i\<close> is the index \<open>enumerate\<close> gives,
  \<open>result\<close> the string built so far; \<open>line[:-1]\<close> is \<open>butlast line\<close>.\<close>

fun line_joining_loop :: "string \<Rightarrow> nat \<Rightarrow> string list \<Rightarrow> string \<Rightarrow> string" where
  "line_joining_loop separator i [] result = result"
| "line_joining_loop separator i (line # rest) result =
     (let result1 = (if i > 0 then result @ separator else result);
          result2 = (if endswith line separator then result1 @ butlast line
                     else result1 @ line)
      in line_joining_loop separator (Suc i) rest result2)"

definition line_joining :: "string \<Rightarrow> string \<Rightarrow> string" where
  "line_joining separator code =
     (let lines = str_split NL code;
          non_empty_lines = map strip (filter (\<lambda>line. strip line \<noteq> []) lines)
      in line_joining_loop separator 0 non_empty_lines [])"

section \<open>Regular expressions\<close>

text \<open>
  The patterns of the repository are values of \<open>rx\<close>, the parsed form of the pattern text:
  a character class \<open>cset\<close> (one character, \<open>.\<close>, \<open>\s\<close>, a bracket set), the anchor \<open>$\<close>,
  sequence, ordered alternative, the repetitions \<open>*\<close>, \<open>*?\<close> and \<open>+\<close> of a character class
  (every repetition in the repository is of one), and a numbered capture group.
  The two flags are \<open>re.DOTALL\<close> and \<open>re.MULTILINE\<close>.
\<close>

datatype cset = CChar char | CDot | CSpace | CSet string

datatype rx =
    Atom cset
  | Dollar
  | Seq rx rx
  | Alt rx rx
  | Star cset
  | StarLazy cset
  | Plus cset
  | Group nat rx

fun cset_matches :: "bool \<Rightarrow> cset \<Rightarrow> char \<Rightarrow> bool" where
  "cset_matches dotall (CChar a) c = (c = a)"
| "cset_matches dotall CDot c = (dotall \<or> c \<noteq> NL)"
| "cset_matches dotall CSpace c = isspace c"
| "cset_matches dotall (CSet s) c = (c \<in> set s)"

text \<open>\<open>$\<close>: at the end of the text or before its final newline; with \<open>re.MULTILINE\<close>,
  before any newline.\<close>

fun at_dollar :: "bool \<Rightarrow> string \<Rightarrow> bool" where
  "at_dollar multiline [] = True"
| "at_dollar multiline (c # cs) = (c = NL \<and> (multiline \<or> cs = []))"

text \<open>The number of capture groups of a pattern (\<open>pattern.groups\<close>).\<close>

fun rx_groups :: "rx \<Rightarrow> nat" where
  "rx_groups (Atom cs) = 0"
| "rx_groups Dollar = 0"
| "rx_groups (Seq a b) = rx_groups a + rx_groups b"
| "rx_groups (Alt a b) = rx_groups a + rx_groups b"
| "rx_groups (Star cs) = 0"
| "rx_groups (StarLazy cs) = 0"
| "rx_groups (Plus cs) = 0"
| "rx_groups (Group n r) = Suc (rx_groups r)"

text \<open>
  The backtracking matcher, in continuation-passing style: \<open>k\<close> is what remains of the
  pattern, applied to the rest of the text and the groups captured so far. A greedy
  repetition tries the longer match first, a lazy one the shorter; an alternative tries
  its left branch first.
\<close>

type_synonym groups = "nat \<Rightarrow> string option"
type_synonym mresult = "(string \<times> groups) option"

fun star_greedy :: "(char \<Rightarrow> bool) \<Rightarrow> string \<Rightarrow> (string \<Rightarrow> mresult) \<Rightarrow> mresult" where
  "star_greedy p [] k = k []"
| "star_greedy p (c # cs) k =
     (if p c then (case star_greedy p cs k of
                     Some r \<Rightarrow> Some r
                   | None \<Rightarrow> k (c # cs))
      else k (c # cs))"

fun star_lazy :: "(char \<Rightarrow> bool) \<Rightarrow> string \<Rightarrow> (string \<Rightarrow> mresult) \<Rightarrow> mresult" where
  "star_lazy p [] k = k []"
| "star_lazy p (c # cs) k =
     (case k (c # cs) of
        Some r \<Rightarrow> Some r
      | None \<Rightarrow> (if p c then star_lazy p cs k else None))"

fun rx_match :: "bool \<Rightarrow> bool \<Rightarrow> rx \<Rightarrow> string \<Rightarrow> groups
                   \<Rightarrow> (string \<Rightarrow> groups \<Rightarrow> mresult) \<Rightarrow> mresult" where
  "rx_match dotall multiline (Atom cs) s g k =
     (case s of
        [] \<Rightarrow> None
      | c # s' \<Rightarrow> (if cset_matches dotall cs c then k s' g else None))"
| "rx_match dotall multiline Dollar s g k =
     (if at_dollar multiline s then k s g else None)"
| "rx_match dotall multiline (Seq a b) s g k =
     rx_match dotall multiline a s g (\<lambda>s' g'. rx_match dotall multiline b s' g' k)"
| "rx_match dotall multiline (Alt a b) s g k =
     (case rx_match dotall multiline a s g k of
        Some r \<Rightarrow> Some r
      | None \<Rightarrow> rx_match dotall multiline b s g k)"
| "rx_match dotall multiline (Star cs) s g k =
     star_greedy (cset_matches dotall cs) s (\<lambda>s'. k s' g)"
| "rx_match dotall multiline (StarLazy cs) s g k =
     star_lazy (cset_matches dotall cs) s (\<lambda>s'. k s' g)"
| "rx_match dotall multiline (Plus cs) s g k =
     (case s of
        [] \<Rightarrow> None
      | c # s' \<Rightarrow> (if cset_matches dotall cs c
                    then star_greedy (cset_matches dotall cs) s' (\<lambda>s''. k s'' g)
                    else None))"
| "rx_match dotall multiline (Group n r) s g k =
     rx_match dotall multiline r s g
       (\<lambda>s' g'. k s' (g'(n := Some (take (length s - length s') s))))"

text \<open>
  One attempt at the start of \<open>s\<close>. With \<open>must_advance\<close> an empty match is refused and the
  matcher backtracks for a longer one, as \<open>re\<close> does right after an empty match. The
  result is the rest of the text after the match and the captured groups.
\<close>

definition match_here :: "bool \<Rightarrow> bool \<Rightarrow> rx \<Rightarrow> string \<Rightarrow> bool \<Rightarrow> mresult" where
  "match_here dotall multiline r s must_advance =
     rx_match dotall multiline r s (\<lambda>n. None)
       (\<lambda>s' g. if must_advance \<and> length s' = length s then None else Some (s', g))"

text \<open>A replacement template: literal characters and group references \<open>\n\<close>. A group
  that took no part in the match expands to the empty string.\<close>

datatype tpart = TLit char | TGroup nat

fun expand :: "tpart list \<Rightarrow> groups \<Rightarrow> string" where
  "expand [] g = []"
| "expand (TLit c # ts) g = c # expand ts g"
| "expand (TGroup n # ts) g = (case g n of None \<Rightarrow> [] | Some x \<Rightarrow> x) @ expand ts g"

fun template_ok :: "tpart list \<Rightarrow> nat \<Rightarrow> bool" where
  "template_ok [] n = True"
| "template_ok (TLit c # ts) n = template_ok ts n"
| "template_ok (TGroup i # ts) n = (i \<le> n \<and> template_ok ts n)"

text \<open>Whatever the matcher hands to its continuation is no longer than the text it
  started from; the substitution loop below terminates by this.\<close>

lemma star_greedy_shorter:
  "star_greedy p s k = Some res \<Longrightarrow> \<exists>s'. length s' \<le> length s \<and> k s' = Some res"
proof (induction s)
  case Nil
  then show ?case by auto
next
  case (Cons c cs)
  show ?case
  proof (cases "p c \<and> star_greedy p cs k \<noteq> None")
    case True
    then obtain r where r: "star_greedy p cs k = Some r" by auto
    with True Cons.prems have "r = res" by simp
    with r Cons.IH obtain s' where "length s' \<le> length cs" "k s' = Some res" by auto
    then show ?thesis by (intro exI [of _ s']) simp
  next
    case False
    with Cons.prems have "k (c # cs) = Some res" by (auto split: if_splits option.splits)
    then show ?thesis by (intro exI [of _ "c # cs"]) simp
  qed
qed

lemma star_lazy_shorter:
  "star_lazy p s k = Some res \<Longrightarrow> \<exists>s'. length s' \<le> length s \<and> k s' = Some res"
proof (induction s)
  case Nil
  then show ?case by auto
next
  case (Cons c cs)
  show ?case
  proof (cases "k (c # cs)")
    case (Some r)
    with Cons.prems have "k (c # cs) = Some res" by simp
    then show ?thesis by (intro exI [of _ "c # cs"]) simp
  next
    case None
    with Cons.prems have "star_lazy p cs k = Some res" by (auto split: if_splits)
    with Cons.IH obtain s' where "length s' \<le> length cs" "k s' = Some res" by auto
    then show ?thesis by (intro exI [of _ s']) simp
  qed
qed

lemma rx_match_shorter:
  "rx_match d m r s g k = Some res
     \<Longrightarrow> \<exists>s' g'. length s' \<le> length s \<and> k s' g' = Some res"
proof (induction r arbitrary: s g k)
  case (Atom cs)
  then show ?case
    by (cases s) (auto split: if_splits intro: le_SucI)
next
  case Dollar
  then show ?case by (auto split: if_splits)
next
  case (Seq a b)
  from Seq.prems have "rx_match d m a s g (\<lambda>s' g'. rx_match d m b s' g' k) = Some res"
    by simp
  from Seq.IH(1) [OF this] obtain s1 g1
    where s1: "length s1 \<le> length s" and b: "rx_match d m b s1 g1 k = Some res" by auto
  from Seq.IH(2) [OF b] obtain s2 g2
    where "length s2 \<le> length s1" "k s2 g2 = Some res" by auto
  with s1 show ?case by (intro exI [of _ s2] exI [of _ g2]) simp
next
  case (Alt a b)
  then show ?case by (auto split: option.splits)
next
  case (Star cs)
  then have "star_greedy (cset_matches d cs) s (\<lambda>s'. k s' g) = Some res" by simp
  from star_greedy_shorter [OF this] obtain s2
    where "length s2 \<le> length s" "k s2 g = Some res" by auto
  then show ?case by (intro exI [of _ s2] exI [of _ g]) simp
next
  case (StarLazy cs)
  then have "star_lazy (cset_matches d cs) s (\<lambda>s'. k s' g) = Some res" by simp
  from star_lazy_shorter [OF this] obtain s2
    where "length s2 \<le> length s" "k s2 g = Some res" by auto
  then show ?case by (intro exI [of _ s2] exI [of _ g]) simp
next
  case (Plus cs)
  show ?case
  proof (cases s)
    case Nil
    with Plus show ?thesis by simp
  next
    case (Cons c s')
    with Plus have "star_greedy (cset_matches d cs) s' (\<lambda>s''. k s'' g) = Some res"
      by (auto split: if_splits)
    from star_greedy_shorter [OF this] obtain s2
      where "length s2 \<le> length s'" "k s2 g = Some res" by auto
    with Cons show ?thesis by (intro exI [of _ s2] exI [of _ g]) simp
  qed
next
  case (Group n r)
  from Group.prems Group.IH [of s g "\<lambda>s' g'. k s' (g'(n := Some (take (length s - length s') s)))"]
  show ?case by auto
qed

lemma match_here_shorter:
  assumes "match_here d m r s ma = Some (s', g)"
  shows "length s' \<le> length s" and "ma \<Longrightarrow> length s' < length s"
proof -
  from assms have "rx_match d m r s (\<lambda>n. None)
      (\<lambda>s' g. if ma \<and> length s' = length s then None else Some (s', g)) = Some (s', g)"
    by (simp add: match_here_def)
  from rx_match_shorter [OF this] obtain s1 g1 where le: "length s1 \<le> length s"
    and k: "(if ma \<and> length s1 = length s then None else Some (s1, g1)) = Some (s', g)"
    by blast
  from k have "s1 = s'" by (auto split: if_splits)
  with le show "length s' \<le> length s" by simp
  assume ma
  with k le \<open>s1 = s'\<close> show "length s' < length s" by (auto split: if_splits)
qed

lemma match_here_measure:
  assumes "match_here d m r s ma = Some x2" and "(s', g) = x2"
  shows "(length s' = length s \<longrightarrow> \<not> ma) \<and> (length s' \<noteq> length s \<longrightarrow> length s' < length s)"
proof -
  from assms have h: "match_here d m r s ma = Some (s', g)" by simp
  have "length s' \<le> length s" by (rule match_here_shorter(1) [OF h])
  moreover have "ma \<Longrightarrow> length s' < length s" by (rule match_here_shorter(2) [OF h])
  ultimately show ?thesis by auto
qed

text \<open>
  The loop of \<open>re.sub\<close> on the text from the current position on. A match at the
  position is replaced by the expanded template and the scan goes on after it (an empty
  match sets \<open>must_advance\<close>); where nothing matches, one character is copied.
\<close>

function sub_loop :: "bool \<Rightarrow> bool \<Rightarrow> rx \<Rightarrow> tpart list \<Rightarrow> string \<Rightarrow> bool \<Rightarrow> string" where
  "sub_loop dotall multiline r repl s must_advance =
     (case match_here dotall multiline r s must_advance of
        Some (s', g) \<Rightarrow>
          expand repl g @ sub_loop dotall multiline r repl s' (length s' = length s)
      | None \<Rightarrow>
          (case s of
             [] \<Rightarrow> []
           | c # cs \<Rightarrow> c # sub_loop dotall multiline r repl cs False))"
  by pat_completeness auto
termination
proof (relation "measures [\<lambda>(d, m, r, repl, s, ma). length s,
                           \<lambda>(d, m, r, repl, s, ma). if ma then 0 else 1]", goal_cases)
  case 1
  then show ?case by simp
next
  case 2
  then show ?case by simp
next
  case 3
  from match_here_measure [OF 3] show ?case by simp
qed

declare sub_loop.simps [simp del]

datatype error =
    ReError
  | ValueError string
  | TypeError
  | FileNotFoundError
  | UnicodeDecodeError
  | PermissionError

text \<open>\<open>re.sub(pattern, repl, string, flags)\<close>: a template that names a group the
  pattern does not have raises \<open>re.error\<close>, whether or not anything matches.\<close>

definition re_sub :: "rx \<Rightarrow> tpart list \<Rightarrow> string \<Rightarrow> bool \<Rightarrow> bool \<Rightarrow> error + string" where
  "re_sub pattern repl code dotall multiline =
     (if template_ok repl (rx_groups pattern)
      then Inr (sub_loop dotall multiline pattern repl code False)
      else Inl ReError)"

section \<open>Actions\<close>

text \<open>
  The classes of \<open>core/actions/basic_actions.py\<close>, one constructor each, with the
  attributes \<open>__init__\<close> stores; \<open>NamedAction\<close> is the wrapper class of the factory.
  A pattern attribute is \<open>None\<close> when the Python value is \<open>None\<close> or the empty pattern
  text, the two values the truth test of \<open>apply\<close> treats as absent.
\<close>

datatype action =
    CommentRemovalAction "rx option" "rx option"
  | WhitespaceReductionAction bool
  | EmptyLineRemovalAction
  | OperatorSpaceRemovalAction "rx list"
  | LineJoiningAction string
  | CompositeMinificationAction "action list"
  | NamedAction string action

definition bind_result :: "error + 'a \<Rightarrow> ('a \<Rightarrow> error + 'b) \<Rightarrow> error + 'b" where
  "bind_result x f = (case x of Inl e \<Rightarrow> Inl e | Inr v \<Rightarrow> f v)"

text \<open>A list comprehension whose element expression may raise.\<close>

fun map_result :: "('a \<Rightarrow> error + 'b) \<Rightarrow> 'a list \<Rightarrow> error + 'b list" where
  "map_result f [] = Inr []"
| "map_result f (x # xs) =
     (case f x of
        Inl e \<Rightarrow> Inl e
      | Inr y \<Rightarrow> (case map_result f xs of Inl e \<Rightarrow> Inl e | Inr ys \<Rightarrow> Inr (y # ys)))"

text \<open>\<open>CommentRemovalAction.apply\<close>: the multi-line pattern first, with \<open>re.DOTALL\<close>,
  then the single-line pattern, with \<open>re.MULTILINE\<close>.\<close>

definition comment_removal :: "rx option \<Rightarrow> rx option \<Rightarrow> string \<Rightarrow> error + string" where
  "comment_removal single_line_pattern multi_line_pattern code =
     bind_result
       (case multi_line_pattern of
          Some p \<Rightarrow> re_sub p [] code True False
        | None \<Rightarrow> Inr code)
       (\<lambda>code1. case single_line_pattern of
          Some p \<Rightarrow> re_sub p [] code1 False True
        | None \<Rightarrow> Inr code1)"

text \<open>The pattern \<open>\s+\<close> and \<open>WhitespaceReductionAction.apply\<close>.\<close>

definition whitespace_run :: rx where
  "whitespace_run = Plus CSpace"

definition whitespace_reduction :: "bool \<Rightarrow> string \<Rightarrow> error + string" where
  "whitespace_reduction preserve_newlines code =
     (if preserve_newlines then
        bind_result
          (map_result
             (\<lambda>line. bind_result (re_sub whitespace_run [TLit (CHR '' '')] line False False)
                        (\<lambda>l. Inr (strip l)))
             (str_split NL code))
          (\<lambda>processed_lines. Inr (str_join [NL] processed_lines))
      else
        bind_result (re_sub whitespace_run [TLit (CHR '' '')] code False False)
          (\<lambda>c. Inr (strip c)))"

text \<open>The default patterns of \<open>OperatorSpaceRemovalAction\<close>, each
  \<open>\s*([...])\s*\<close>, and its loop, which replaces every match by its group 1.\<close>

definition around :: "string \<Rightarrow> rx" where
  "around cs = Seq (Star CSpace) (Seq (Group 1 (Atom (CSet cs))) (Star CSpace))"

definition default_operator_patterns :: "rx list" where
  "default_operator_patterns =
     [around ''()'', around ''{}'', around ''[]'', around ''+%-*/=<>!&|:,'']"

fun operator_space_removal :: "rx list \<Rightarrow> string \<Rightarrow> error + string" where
  "operator_space_removal [] code = Inr code"
| "operator_space_removal (pattern # patterns) code =
     (case re_sub pattern [TGroup 1] code False False of
        Inl e \<Rightarrow> Inl e
      | Inr code1 \<Rightarrow> operator_space_removal patterns code1)"

text \<open>The constructors whose \<open>__init__\<close> has a default: \<open>patterns or [...]\<close> and
  \<open>actions or []\<close> take the default for \<open>None\<close> and for an empty list alike.\<close>

definition new_OperatorSpaceRemovalAction :: "rx list option \<Rightarrow> action" where
  "new_OperatorSpaceRemovalAction patterns =
     OperatorSpaceRemovalAction
       (case patterns of
          None \<Rightarrow> default_operator_patterns
        | Some ps \<Rightarrow> (if ps = [] then default_operator_patterns else ps))"

definition new_CompositeMinificationAction :: "action list option \<Rightarrow> action" where
  "new_CompositeMinificationAction actions =
     CompositeMinificationAction
       (case actions of None \<Rightarrow> [] | Some as \<Rightarrow> (if as = [] then [] else as))"

text \<open>\<open>apply\<close> of every class; \<open>apply_actions\<close> is the loop of
  \<open>CompositeMinificationAction.apply\<close>, and an exception of one action leaves it.\<close>

fun apply_action :: "action \<Rightarrow> string \<Rightarrow> error + string"
  and apply_actions :: "action list \<Rightarrow> string \<Rightarrow> error + string" where
  "apply_action (CommentRemovalAction single_line_pattern multi_line_pattern) code =
     comment_removal single_line_pattern multi_line_pattern code"
| "apply_action (WhitespaceReductionAction preserve_newlines) code =
     whitespace_reduction preserve_newlines code"
| "apply_action EmptyLineRemovalAction code = Inr (empty_line_removal code)"
| "apply_action (OperatorSpaceRemovalAction patterns) code =
     operator_space_removal patterns code"
| "apply_action (LineJoiningAction separator) code = Inr (line_joining separator code)"
| "apply_action (CompositeMinificationAction actions) code = apply_actions actions code"
| "apply_action (NamedAction name a) code = apply_action a code"
| "apply_actions [] result = Inr result"
| "apply_actions (a # as) result =
     (case apply_action a result of
        Inl e \<Rightarrow> Inl e
      | Inr result1 \<Rightarrow> apply_actions as result1)"

text \<open>The \<open>name\<close> property: the class name, the joined names of the children for a
  composite, the given name for the factory's wrapper.\<close>

fun action_name :: "action \<Rightarrow> string" where
  "action_name (CommentRemovalAction s m) = ''CommentRemovalAction''"
| "action_name (WhitespaceReductionAction p) = ''WhitespaceReductionAction''"
| "action_name EmptyLineRemovalAction = ''EmptyLineRemovalAction''"
| "action_name (OperatorSpaceRemovalAction ps) = ''OperatorSpaceRemovalAction''"
| "action_name (LineJoiningAction sep) = ''LineJoiningAction''"
| "action_name (CompositeMinificationAction actions) =
     ''Composite('' @ str_join ''+'' (map action_name actions) @ '')''"
| "action_name (NamedAction name a) = name"

section \<open>Language minifiers\<close>

text \<open>The comment patterns of \<open>core/languages.py\<close>; \<open>chars cs r\<close> is the text \<open>cs\<close>
  followed by \<open>r\<close>.\<close>

fun chars :: "string \<Rightarrow> rx \<Rightarrow> rx" where
  "chars [] r = r"
| "chars (c # cs) r = Seq (Atom (CChar c)) (chars cs r)"

text \<open>\<open>#.*$\<close>\<close>

definition py_single_line_pattern :: rx where
  "py_single_line_pattern = chars ''#'' (Seq (Star CDot) Dollar)"

text \<open>Three double quotes, \<open>.*?\<close>, three double quotes, or the same with single
  quotes.\<close>

definition py_multi_line_pattern :: rx where
  "py_multi_line_pattern =
     Alt (chars [CHR 0x22, CHR 0x22, CHR 0x22]
            (Seq (StarLazy CDot) (chars [CHR 0x22, CHR 0x22] (Atom (CChar (CHR 0x22))))))
         (chars [CHR 0x27, CHR 0x27, CHR 0x27]
            (Seq (StarLazy CDot) (chars [CHR 0x27, CHR 0x27] (Atom (CChar (CHR 0x27))))))"

text \<open>\<open>//.*$\<close>\<close>

definition js_single_line_pattern :: rx where
  "js_single_line_pattern = chars ''//'' (Seq (Star CDot) Dollar)"

text \<open>\<open>/\*.*?\*/\<close>, of JavaScript and CSS\<close>

definition js_multi_line_pattern :: rx where
  "js_multi_line_pattern =
     chars ''/*'' (Seq (StarLazy CDot) (chars ''*'' (Atom (CChar (CHR ''/'')))))"

text \<open>\<open><!--.*?-->\<close>\<close>

definition html_multi_line_pattern :: rx where
  "html_multi_line_pattern =
     chars ''<!--'' (Seq (StarLazy CDot) (chars ''--'' (Atom (CChar (CHR ''>'')))))"

text \<open>\<open>\/*.*?\*/|//.*\<close>: the first branch starts with any number of slashes.\<close>

definition html_single_line_pattern :: rx where
  "html_single_line_pattern =
     Alt (Seq (Star (CChar (CHR ''/'')))
            (Seq (StarLazy CDot) (chars ''*'' (Atom (CChar (CHR ''/''))))))
         (chars ''//'' (Star CDot))"

text \<open>
  Objects with an identity. The world holds the Python lists of actions, by address, and
  the next free address; a composite object is its own address and the address of its
  \<open>actions\<close> list, so two composites over equal lists are still two objects and a list
  shared with a caller is seen through every reference to it.
\<close>

type_synonym addr = nat

record world =
  lists :: "addr \<Rightarrow> action list"
  next_addr :: addr

record composite_obj =
  comp_id :: addr
  comp_actions :: addr

definition new_list :: "world \<Rightarrow> action list \<Rightarrow> addr \<times> world" where
  "new_list w xs =
     (next_addr w, w\<lparr>lists := (lists w)(next_addr w := xs), next_addr := Suc (next_addr w)\<rparr>)"

definition list_append :: "world \<Rightarrow> addr \<Rightarrow> action \<Rightarrow> world" where
  "list_append w l a = w\<lparr>lists := (lists w)(l := lists w l @ [a])\<rparr>"

text \<open>\<open>CompositeMinificationAction(actions)\<close> on a list object: \<open>actions or []\<close> keeps
  a non-empty list by reference and replaces an empty one by a new empty list.\<close>

definition new_composite :: "world \<Rightarrow> addr \<Rightarrow> composite_obj \<times> world" where
  "new_composite w actions =
     (let (l, w1) = (if lists w actions = [] then new_list w [] else (actions, w))
      in (\<lparr>comp_id = next_addr w1, comp_actions = l\<rparr>,
          w1\<lparr>next_addr := Suc (next_addr w1)\<rparr>))"

definition composite_apply :: "world \<Rightarrow> composite_obj \<Rightarrow> string \<Rightarrow> error + string" where
  "composite_apply w c code =
     apply_action (CompositeMinificationAction (lists w (comp_actions c))) code"

subsection \<open>PythonMinifier\<close>

record python_minifier =
  py_preserve_newlines :: bool
  py_preserve_docstrings :: bool
  py_action :: composite_obj

text \<open>\<open>_create_action\<close> reads the two settings of \<open>self\<close>.\<close>

definition py_create_action :: "bool \<Rightarrow> bool \<Rightarrow> world \<Rightarrow> composite_obj \<times> world" where
  "py_create_action preserve_newlines preserve_docstrings w =
     (let (actions, w1) = new_list w [];
          w2 = (if preserve_docstrings
                then list_append w1 actions
                       (CommentRemovalAction (Some py_single_line_pattern) None)
                else list_append w1 actions
                       (CommentRemovalAction (Some py_single_line_pattern)
                          (Some py_multi_line_pattern)));
          w3 = list_append w2 actions (WhitespaceReductionAction preserve_newlines);
          w4 = list_append w3 actions EmptyLineRemovalAction;
          w5 = (if \<not> preserve_newlines
                then list_append w4 actions (new_OperatorSpaceRemovalAction None)
                else w4)
      in new_composite w5 actions)"

definition new_PythonMinifier :: "bool \<Rightarrow> bool \<Rightarrow> world \<Rightarrow> python_minifier \<times> world" where
  "new_PythonMinifier preserve_newlines preserve_docstrings w =
     (let (a, w1) = py_create_action preserve_newlines preserve_docstrings w
      in (\<lparr>py_preserve_newlines = preserve_newlines,
           py_preserve_docstrings = preserve_docstrings,
           py_action = a\<rparr>, w1))"

definition py_set_preserve_newlines ::
    "bool \<Rightarrow> python_minifier \<times> world \<Rightarrow> python_minifier \<times> world" where
  "py_set_preserve_newlines preserve mw =
     (let (m, w) = mw in
      if py_preserve_newlines m \<noteq> preserve then
        (let m1 = m\<lparr>py_preserve_newlines := preserve\<rparr>;
             (a, w1) = py_create_action (py_preserve_newlines m1) (py_preserve_docstrings m1) w
         in (m1\<lparr>py_action := a\<rparr>, w1))
      else (m, w))"

definition py_set_preserve_docstrings ::
    "bool \<Rightarrow> python_minifier \<times> world \<Rightarrow> python_minifier \<times> world" where
  "py_set_preserve_docstrings preserve mw =
     (let (m, w) = mw in
      if py_preserve_docstrings m \<noteq> preserve then
        (let m1 = m\<lparr>py_preserve_docstrings := preserve\<rparr>;
             (a, w1) = py_create_action (py_preserve_newlines m1) (py_preserve_docstrings m1) w
         in (m1\<lparr>py_action := a\<rparr>, w1))
      else (m, w))"

definition py_minify :: "python_minifier \<times> world \<Rightarrow> string \<Rightarrow> error + string" where
  "py_minify mw code = (let (m, w) = mw in composite_apply w (py_action m) code)"

subsection \<open>JavaScriptMinifier\<close>

record javascript_minifier =
  js_preserve_newlines :: bool
  js_aggressive :: bool
  js_action :: composite_obj

definition js_create_action :: "bool \<Rightarrow> bool \<Rightarrow> world \<Rightarrow> composite_obj \<times> world" where
  "js_create_action preserve_newlines aggressive w =
     (let (actions, w1) =
            new_list w
              [CommentRemovalAction (Some js_single_line_pattern) (Some js_multi_line_pattern),
               WhitespaceReductionAction preserve_newlines,
               EmptyLineRemovalAction];
          w2 = (if aggressive \<or> \<not> preserve_newlines
                then list_append w1 actions (new_OperatorSpaceRemovalAction None)
                else w1)
      in new_composite w2 actions)"

definition new_JavaScriptMinifier ::
    "bool \<Rightarrow> bool \<Rightarrow> world \<Rightarrow> javascript_minifier \<times> world" where
  "new_JavaScriptMinifier preserve_newlines aggressive w =
     (let (a, w1) = js_create_action preserve_newlines aggressive w
      in (\<lparr>js_preserve_newlines = preserve_newlines,
           js_aggressive = aggressive,
           js_action = a\<rparr>, w1))"

definition js_set_preserve_newlines ::
    "bool \<Rightarrow> javascript_minifier \<times> world \<Rightarrow> javascript_minifier \<times> world" where
  "js_set_preserve_newlines preserve mw =
     (let (m, w) = mw in
      if js_preserve_newlines m \<noteq> preserve then
        (let m1 = m\<lparr>js_preserve_newlines := preserve\<rparr>;
             (a, w1) = js_create_action (js_preserve_newlines m1) (js_aggressive m1) w
         in (m1\<lparr>js_action := a\<rparr>, w1))
      else (m, w))"

definition js_set_aggressive ::
    "bool \<Rightarrow> javascript_minifier \<times> world \<Rightarrow> javascript_minifier \<times> world" where
  "js_set_aggressive aggressive mw =
     (let (m, w) = mw in
      if js_aggressive m \<noteq> aggressive then
        (let m1 = m\<lparr>js_aggressive := aggressive\<rparr>;
             (a, w1) = js_create_action (js_preserve_newlines m1) (js_aggressive m1) w
         in (m1\<lparr>js_action := a\<rparr>, w1))
      else (m, w))"

definition js_minify :: "javascript_minifier \<times> world \<Rightarrow> string \<Rightarrow> error + string" where
  "js_minify mw code = (let (m, w) = mw in composite_apply w (js_action m) code)"

subsection \<open>CSSMinifier\<close>

record css_minifier =
  css_action :: composite_obj

definition new_CSSMinifier :: "world \<Rightarrow> css_minifier \<times> world" where
  "new_CSSMinifier w =
     (let (actions, w1) =
            new_list w
              [CommentRemovalAction None (Some js_multi_line_pattern),
               WhitespaceReductionAction False,
               EmptyLineRemovalAction,
               new_OperatorSpaceRemovalAction None];
          (a, w2) = new_composite w1 actions
      in (\<lparr>css_action = a\<rparr>, w2))"

definition css_minify :: "css_minifier \<times> world \<Rightarrow> string \<Rightarrow> error + string" where
  "css_minify mw code = (let (m, w) = mw in composite_apply w (css_action m) code)"

subsection \<open>HTMLMinifier\<close>

record html_minifier =
  html_preserve_newlines :: bool
  html_action :: composite_obj

definition html_create_action :: "bool \<Rightarrow> world \<Rightarrow> composite_obj \<times> world" where
  "html_create_action preserve_newlines w =
     (let (actions, w1) =
            new_list w
              [CommentRemovalAction (Some html_single_line_pattern)
                 (Some html_multi_line_pattern),
               WhitespaceReductionAction preserve_newlines,
               EmptyLineRemovalAction]
      in new_composite w1 actions)"

definition new_HTMLMinifier :: "bool \<Rightarrow> world \<Rightarrow> html_minifier \<times> world" where
  "new_HTMLMinifier preserve_newlines w =
     (let (a, w1) = html_create_action preserve_newlines w
      in (\<lparr>html_preserve_newlines = preserve_newlines, html_action = a\<rparr>, w1))"

definition html_set_preserve_newlines ::
    "bool \<Rightarrow> html_minifier \<times> world \<Rightarrow> html_minifier \<times> world" where
  "html_set_preserve_newlines preserve mw =
     (let (m, w) = mw in
      if html_preserve_newlines m \<noteq> preserve then
        (let m1 = m\<lparr>html_preserve_newlines := preserve\<rparr>;
             (a, w1) = html_create_action (html_preserve_newlines m1) w
         in (m1\<lparr>html_action := a\<rparr>, w1))
      else (m, w))"

definition html_minify :: "html_minifier \<times> world \<Rightarrow> string \<Rightarrow> error + string" where
  "html_minify mw code = (let (m, w) = mw in composite_apply w (html_action m) code)"

subsection \<open>create_custom_minifier\<close>

text \<open>The custom minifier keeps the caller's list by reference; each \<open>minify\<close> builds a
  composite over it and applies that.\<close>

record custom_minifier =
  cm_name :: string
  cm_extensions :: "string list"
  cm_actions :: addr

definition create_custom_minifier :: "string \<Rightarrow> string list \<Rightarrow> addr \<Rightarrow> custom_minifier" where
  "create_custom_minifier name extensions actions =
     \<lparr>cm_name = name, cm_extensions = extensions, cm_actions = actions\<rparr>"

definition custom_minify ::
    "custom_minifier \<Rightarrow> world \<Rightarrow> string \<Rightarrow> (error + string) \<times> world" where
  "custom_minify m w code =
     (let (action, w1) = new_composite w (cm_actions m)
      in (composite_apply w1 action code, w1))"

section \<open>The action factory\<close>

text \<open>
  The keyword arguments of \<open>create_action\<close>: one optional field for each parameter a
  constructor has, holding a value of the parameter's annotated type, and the names of
  any other keywords given.
\<close>

record kwargs =
  kw_preserve_newlines :: "bool option"
  kw_single_line_pattern :: "rx option option"
  kw_multi_line_pattern :: "rx option option"
  kw_patterns :: "rx list option option"
  kw_separator :: "string option"
  kw_other :: "string list"

definition given :: "kwargs \<Rightarrow> string list" where
  "given kw =
     (if kw_preserve_newlines kw \<noteq> None then [''preserve_newlines''] else []) @
     (if kw_single_line_pattern kw \<noteq> None then [''single_line_pattern''] else []) @
     (if kw_multi_line_pattern kw \<noteq> None then [''multi_line_pattern''] else []) @
     (if kw_patterns kw \<noteq> None then [''patterns''] else []) @
     (if kw_separator kw \<noteq> None then [''separator''] else []) @
     kw_other kw"

text \<open>Calling a class with \<open>**kwargs\<close>: a keyword that is not a parameter of its
  \<open>__init__\<close> raises \<open>TypeError\<close>; a parameter not given takes its default.\<close>

definition call_with :: "string list \<Rightarrow> kwargs \<Rightarrow> action \<Rightarrow> error + action" where
  "call_with params kw a = (if list_all (\<lambda>k. k \<in> set params) (given kw) then Inr a else Inl TypeError)"

definition class_WhitespaceReductionAction :: "kwargs \<Rightarrow> error + action" where
  "class_WhitespaceReductionAction kw =
     call_with [''preserve_newlines''] kw
       (WhitespaceReductionAction
          (case kw_preserve_newlines kw of None \<Rightarrow> False | Some b \<Rightarrow> b))"

definition class_CommentRemovalAction :: "kwargs \<Rightarrow> error + action" where
  "class_CommentRemovalAction kw =
     call_with [''single_line_pattern'', ''multi_line_pattern''] kw
       (CommentRemovalAction
          (case kw_single_line_pattern kw of None \<Rightarrow> None | Some p \<Rightarrow> p)
          (case kw_multi_line_pattern kw of None \<Rightarrow> None | Some p \<Rightarrow> p))"

definition class_EmptyLineRemovalAction :: "kwargs \<Rightarrow> error + action" where
  "class_EmptyLineRemovalAction kw = call_with [] kw EmptyLineRemovalAction"

definition class_OperatorSpaceRemovalAction :: "kwargs \<Rightarrow> error + action" where
  "class_OperatorSpaceRemovalAction kw =
     call_with [''patterns''] kw
       (new_OperatorSpaceRemovalAction
          (case kw_patterns kw of None \<Rightarrow> None | Some ps \<Rightarrow> ps))"

definition class_LineJoiningAction :: "kwargs \<Rightarrow> error + action" where
  "class_LineJoiningAction kw =
     call_with [''separator''] kw
       (LineJoiningAction (case kw_separator kw of None \<Rightarrow> '';'' | Some s \<Rightarrow> s))"

definition action_classes :: "(string \<times> (kwargs \<Rightarrow> error + action)) list" where
  "action_classes =
     [(''whitespace'', class_WhitespaceReductionAction),
      (''comments'', class_CommentRemovalAction),
      (''empty_lines'', class_EmptyLineRemovalAction),
      (''operators'', class_OperatorSpaceRemovalAction),
      (''line_joining'', class_LineJoiningAction)]"

text \<open>\<open>create_action(action_type, name, **kwargs)\<close>; \<open>if name:\<close> is false for \<open>None\<close>
  and for the empty string.\<close>

definition create_action :: "string \<Rightarrow> string option \<Rightarrow> kwargs \<Rightarrow> error + action" where
  "create_action action_type name kw =
     (case map_of action_classes action_type of
        None \<Rightarrow> Inl (ValueError (''Unknown action type: '' @ action_type))
      | Some action_class \<Rightarrow>
          bind_result (action_class kw)
            (\<lambda>action.
               (case name of
                  None \<Rightarrow> Inr action
                | Some n \<Rightarrow> (if n \<noteq> [] then Inr (NamedAction n action) else Inr action))))"

section \<open>Files\<close>

text \<open>
  The file system the \<open>FileProcessor\<close> works on, a POSIX one: the files by path, a file
  being its decoded text as stored or bytes that do not decode as UTF-8; the paths that
  cannot be written; and the log of the writes done, in order. Writing in text mode
  stores the text as it is.
\<close>

datatype file_content = Text string | Undecodable

record filesystem =
  files :: "string \<rightharpoonup> file_content"
  unwritable :: "string set"
  written :: "(string \<times> string) list"

text \<open>Reading in text mode translates line endings: a carriage return with the line feed
  after it, or one alone, is read as one newline.\<close>

fun universal_newlines :: "string \<Rightarrow> string" where
  "universal_newlines [] = []"
| "universal_newlines [c] = (if c = CHR 0x0D then [NL] else [c])"
| "universal_newlines (c # d # cs) =
     (if c = CHR 0x0D then
        (if d = NL then NL # universal_newlines cs else NL # universal_newlines (d # cs))
      else c # universal_newlines (d # cs))"

definition read_file :: "filesystem \<Rightarrow> string \<Rightarrow> error + string" where
  "read_file fs file_path =
     (case files fs file_path of
        None \<Rightarrow> Inl FileNotFoundError
      | Some Undecodable \<Rightarrow> Inl UnicodeDecodeError
      | Some (Text content) \<Rightarrow> Inr (universal_newlines content))"

definition write_file :: "filesystem \<Rightarrow> string \<Rightarrow> string \<Rightarrow> error + filesystem" where
  "write_file fs file_path content =
     (if file_path \<in> unwritable fs then Inl PermissionError
      else Inr (fs\<lparr>files := (files fs)(file_path \<mapsto> Text content),
                   written := written fs @ [(file_path, content)]\<rparr>))"

definition file_exists :: "filesystem \<Rightarrow> string \<Rightarrow> bool" where
  "file_exists fs file_path = (files fs file_path \<noteq> None)"

text \<open>\<open>str.rfind\<close> of one character: the last index, or \<open>-1\<close>.\<close>

fun rfind_from :: "char \<Rightarrow> string \<Rightarrow> int \<Rightarrow> int \<Rightarrow> int" where
  "rfind_from c [] i found = found"
| "rfind_from c (x # xs) i found = rfind_from c xs (i + 1) (if x = c then i else found)"

definition rfind :: "string \<Rightarrow> char \<Rightarrow> int" where
  "rfind p c = rfind_from c p 0 (-1)"

text \<open>\<open>os.path.splitext\<close> on POSIX: the extension starts at the last dot of the last
  component, unless only dots come before it there.\<close>

function splitext_loop :: "string \<Rightarrow> int \<Rightarrow> int \<Rightarrow> string \<times> string" where
  "splitext_loop p filenameIndex dotIndex =
     (if filenameIndex < dotIndex then
        (if take 1 (drop (nat filenameIndex) p) \<noteq> ''.''
         then (take (nat dotIndex) p, drop (nat dotIndex) p)
         else splitext_loop p (filenameIndex + 1) dotIndex)
      else (p, []))"
  by pat_completeness auto
termination
  by (relation "measure (\<lambda>(p, filenameIndex, dotIndex). nat (dotIndex - filenameIndex))") auto

declare splitext_loop.simps [simp del]

definition splitext :: "string \<Rightarrow> string \<times> string" where
  "splitext p =
     (let sepIndex = rfind p (CHR ''/'');
          dotIndex = rfind p (CHR ''.'')
      in if dotIndex > sepIndex then splitext_loop p (sepIndex + 1) dotIndex
         else (p, []))"

text \<open>\<open>os.path.join\<close> of two parts, on POSIX.\<close>

definition path_join :: "string \<Rightarrow> string \<Rightarrow> string" where
  "path_join a b =
     (if startswith b ''/'' then b
      else if a = [] \<or> endswith a ''/'' then a @ b
      else a @ ''/'' @ b)"

text \<open>\<open>str.lower\<close>, on the code points below 256: the letters \<open>A\<close> to \<open>Z\<close> and the
  upper-case letters from \<open>0xC0\<close> to \<open>0xDE\<close> (\<open>0xD7\<close> is not one) move up by 32.\<close>

definition upper_chars :: string where
  "upper_chars = ''ABCDEFGHIJKLMNOPQRSTUVWXYZ'' @
     [CHR 0xC0, CHR 0xC1, CHR 0xC2, CHR 0xC3, CHR 0xC4, CHR 0xC5, CHR 0xC6, CHR 0xC7,
      CHR 0xC8, CHR 0xC9, CHR 0xCA, CHR 0xCB, CHR 0xCC, CHR 0xCD, CHR 0xCE, CHR 0xCF,
      CHR 0xD0, CHR 0xD1, CHR 0xD2, CHR 0xD3, CHR 0xD4, CHR 0xD5, CHR 0xD6,
      CHR 0xD8, CHR 0xD9, CHR 0xDA, CHR 0xDB, CHR 0xDC, CHR 0xDD, CHR 0xDE]"

definition lower_chars :: string where
  "lower_chars = ''abcdefghijklmnopqrstuvwxyz'' @
     [CHR 0xE0, CHR 0xE1, CHR 0xE2, CHR 0xE3, CHR 0xE4, CHR 0xE5, CHR 0xE6, CHR 0xE7,
      CHR 0xE8, CHR 0xE9, CHR 0xEA, CHR 0xEB, CHR 0xEC, CHR 0xED, CHR 0xEE, CHR 0xEF,
      CHR 0xF0, CHR 0xF1, CHR 0xF2, CHR 0xF3, CHR 0xF4, CHR 0xF5, CHR 0xF6,
      CHR 0xF8, CHR 0xF9, CHR 0xFA, CHR 0xFB, CHR 0xFC, CHR 0xFD, CHR 0xFE]"

definition lower_char :: "char \<Rightarrow> char" where
  "lower_char c = (case map_of (zip upper_chars lower_chars) c of None \<Rightarrow> c | Some l \<Rightarrow> l)"

definition lower :: "string \<Rightarrow> string" where
  "lower s = map lower_char s"

definition get_minified_path :: "string \<Rightarrow> string \<Rightarrow> string" where
  "get_minified_path file_path suffix =
     (let (base, ext) = splitext file_path in base @ suffix @ ext)"

section \<open>Jobs and projects\<close>

text \<open>A language minifier as the project layer sees it: its name, its extensions and
  its \<open>minify\<close>.\<close>

record language_minifier =
  lm_name :: string
  lm_file_extensions :: "string list"
  lm_minify :: "string \<Rightarrow> error + string"

record minification_job =
  job_file_path :: string
  job_minifier :: language_minifier
  job_minified_path :: string

definition new_MinificationJob :: "string \<Rightarrow> language_minifier \<Rightarrow> string \<Rightarrow> minification_job" where
  "new_MinificationJob file_path minifier suffix =
     \<lparr>job_file_path = file_path, job_minifier = minifier,
      job_minified_path = get_minified_path file_path suffix\<rparr>"

text \<open>\<open>MinificationJob.execute\<close>: the result and the file system after it; an exception
  is raised again after the message, and the file system is as before.\<close>

definition execute :: "minification_job \<Rightarrow> filesystem \<Rightarrow> error + (bool \<times> filesystem)" where
  "execute job fs =
     bind_result (read_file fs (job_file_path job)) (\<lambda>code.
     bind_result (lm_minify (job_minifier job) code) (\<lambda>minified_code.
     bind_result
       (if file_exists fs (job_minified_path job)
        then bind_result (read_file fs (job_minified_path job))
               (\<lambda>existing_code. Inr (existing_code = minified_code))
        else Inr False) (\<lambda>identical.
     if identical then Inr (False, fs)
     else bind_result (write_file fs (job_minified_path job) minified_code)
            (\<lambda>fs1. Inr (True, fs1)))))"

text \<open>The registry: its two dictionaries as association lists in insertion order.\<close>

record minifier_registry =
  reg_minifiers :: "(string \<times> language_minifier) list"
  reg_extension_map :: "(string \<times> language_minifier) list"

fun dict_set :: "('k \<times> 'v) list \<Rightarrow> 'k \<Rightarrow> 'v \<Rightarrow> ('k \<times> 'v) list" where
  "dict_set [] k v = [(k, v)]"
| "dict_set ((k', v') # d) k v = (if k' = k then (k, v) # d else (k', v') # dict_set d k v)"

definition register_minifier :: "minifier_registry \<Rightarrow> language_minifier \<Rightarrow> minifier_registry" where
  "register_minifier reg minifier =
     reg\<lparr>reg_minifiers := dict_set (reg_minifiers reg) (lower (lm_name minifier)) minifier,
         reg_extension_map :=
           fold (\<lambda>ext d. dict_set d (lower ext) minifier) (lm_file_extensions minifier)
             (reg_extension_map reg)\<rparr>"

definition get_minifier_by_name :: "minifier_registry \<Rightarrow> string \<Rightarrow> language_minifier option" where
  "get_minifier_by_name reg name = map_of (reg_minifiers reg) (lower name)"

definition get_minifier_for_extension ::
    "minifier_registry \<Rightarrow> string \<Rightarrow> language_minifier option" where
  "get_minifier_for_extension reg extension =
     (let extension1 = (if \<not> startswith extension ''.'' then ''.'' @ extension else extension)
      in map_of (reg_extension_map reg) (lower extension1))"

definition get_supported_extensions :: "minifier_registry \<Rightarrow> string list" where
  "get_supported_extensions reg = map fst (reg_extension_map reg)"

text \<open>\<open>_get_extensions_to_process\<close>; the resulting set is kept as the list of its
  members.\<close>

definition get_extensions_to_process ::
    "minifier_registry \<Rightarrow> string list option \<Rightarrow> string list option \<Rightarrow> string list" where
  "get_extensions_to_process reg languages extensions =
     (let from_languages =
            (case languages of
               None \<Rightarrow> []
             | Some ls \<Rightarrow>
                 concat (map (\<lambda>file_type.
                   (case get_minifier_by_name reg file_type of
                      None \<Rightarrow> []
                    | Some minifier \<Rightarrow> lm_file_extensions minifier)) ls));
          from_extensions =
            (case extensions of
               None \<Rightarrow> []
             | Some es \<Rightarrow>
                 map (\<lambda>ext. lower (if \<not> startswith ext ''.'' then ''.'' @ ext else ext)) es);
          extensions_to_process = from_languages @ from_extensions
      in if extensions_to_process = [] then get_supported_extensions reg
         else extensions_to_process)"

record project_minifier =
  pm_registry :: minifier_registry
  pm_files_to_skip :: "string list"

definition new_ProjectMinifier :: "minifier_registry \<Rightarrow> string list option \<Rightarrow> project_minifier" where
  "new_ProjectMinifier reg files_to_skip =
     \<lparr>pm_registry = reg,
      pm_files_to_skip =
        (case files_to_skip of
           None \<Rightarrow> [''__pycache__'']
         | Some fs \<Rightarrow> (if fs = [] then [''__pycache__''] else fs))\<rparr>"

text \<open>The body of the inner loop of \<open>minify_project\<close> for one file name: the counters
  \<open>processed\<close> and \<open>skipped\<close> and the file system, before and after.\<close>

definition process_file ::
    "minifier_registry \<Rightarrow> string list \<Rightarrow> string \<Rightarrow> string \<Rightarrow> string
       \<Rightarrow> nat \<times> nat \<times> filesystem \<Rightarrow> nat \<times> nat \<times> filesystem" where
  "process_file reg extensions_to_process suffix foldername filename st =
     (let (processed, skipped, fs) = st;
          file_path = path_join foldername filename;
          file_ext = lower (snd (splitext filename))
      in if contains filename ''.min.'' then (processed, skipped + 1, fs)
         else if file_ext \<in> set extensions_to_process then
           (case get_minifier_for_extension reg file_ext of
              None \<Rightarrow> (processed, skipped, fs)
            | Some minifier \<Rightarrow>
                (case execute (new_MinificationJob file_path minifier suffix) fs of
                   Inl e \<Rightarrow> (processed, skipped, fs)
                 | Inr (done, fs1) \<Rightarrow>
                     (if done then (processed + 1, skipped, fs1)
                      else (processed, skipped, fs1))))
         else (processed, skipped, fs))"

text \<open>The outer loop over what \<open>os.walk\<close> yields, a list of
  \<open>(foldername, subfolders, filenames)\<close>: a folder whose path contains one of the skip
  texts is passed over.\<close>

definition skip_this_dir :: "string list \<Rightarrow> string \<Rightarrow> bool" where
  "skip_this_dir files_to_skip foldername =
     list_ex (\<lambda>skip_dir. contains foldername skip_dir) files_to_skip"

fun walk_loop ::
    "minifier_registry \<Rightarrow> string list \<Rightarrow> string list \<Rightarrow> string
       \<Rightarrow> (string \<times> string list \<times> string list) list
       \<Rightarrow> nat \<times> nat \<times> filesystem \<Rightarrow> nat \<times> nat \<times> filesystem" where
  "walk_loop reg files_to_skip extensions_to_process suffix [] st = st"
| "walk_loop reg files_to_skip extensions_to_process suffix
     ((foldername, subfolders, filenames) # rest) st =
     (if skip_this_dir files_to_skip foldername
      then walk_loop reg files_to_skip extensions_to_process suffix rest st
      else walk_loop reg files_to_skip extensions_to_process suffix rest
             (fold (process_file reg extensions_to_process suffix foldername) filenames st))"

text \<open>\<open>minify_project\<close>: \<open>walk\<close> is what \<open>os.walk(root_dir)\<close> yields. The result is
  the pair of counters, with the project minifier (its skip list may have grown) and the
  file system after the run.\<close>

definition minify_project ::
    "project_minifier \<Rightarrow> (string \<times> string list \<times> string list) list
       \<Rightarrow> string list option \<Rightarrow> string list option \<Rightarrow> string \<Rightarrow> string list option
       \<Rightarrow> filesystem \<Rightarrow> (nat \<times> nat) \<times> project_minifier \<times> filesystem" where
  "minify_project self walk languages extensions suffix files_to_skip fs =
     (let self1 = (case files_to_skip of
                     None \<Rightarrow> self
                   | Some xs \<Rightarrow>
                       (if xs = [] then self
                        else self\<lparr>pm_files_to_skip := pm_files_to_skip self @ xs\<rparr>));
          extensions_to_process =
            get_extensions_to_process (pm_registry self1) languages extensions;
          (processed, skipped, fs1) =
            walk_loop (pm_registry self1) (pm_files_to_skip self1) extensions_to_process
              suffix walk (0, 0, fs)
      in ((processed, skipped), self1, fs1))"

section \<open>Properties named by the specification\<close>

text \<open>The specification's words for whitespace reduction: every run of whitespace
  becomes one space.\<close>

function collapse_whitespace :: "string \<Rightarrow> string" where
  "collapse_whitespace [] = []"
| "collapse_whitespace (c # cs) =
     (if isspace c then CHR '' '' # collapse_whitespace (dropWhile isspace cs)
      else c # collapse_whitespace cs)"
  by pat_completeness auto
termination
  by (relation "measure length") (auto simp: length_dropWhile_le less_Suc_eq_le)

text \<open>With newlines preserved, each line is collapsed and trimmed and the lines are
  joined by newlines again; otherwise the whole text is collapsed and trimmed.\<close>

definition spec_whitespace_reduction :: "bool \<Rightarrow> string \<Rightarrow> string" where
  "spec_whitespace_reduction preserve_newlines t =
     (if preserve_newlines
      then str_join [NL] (map (\<lambda>line. strip (collapse_whitespace line)) (str_split NL t))
      else strip (collapse_whitespace t))"

text \<open>A pattern matches nowhere in a text: no attempt succeeds, at any position up to
  and including the end.\<close>

fun matches_nowhere :: "bool \<Rightarrow> bool \<Rightarrow> rx \<Rightarrow> string \<Rightarrow> bool" where
  "matches_nowhere dotall multiline r [] = (match_here dotall multiline r [] False = None)"
| "matches_nowhere dotall multiline r (c # cs) =
     (match_here dotall multiline r (c # cs) False = None
      \<and> matches_nowhere dotall multiline r cs)"

text \<open>An action constructed with its defaults or with the parameters a built-in
  language minifier gives it; composites and the factory's wrapper of such actions
  are included.\<close>

fun default_or_builtin :: "action \<Rightarrow> bool"
  and all_default_or_builtin :: "action list \<Rightarrow> bool" where
  "default_or_builtin (CommentRemovalAction single_line_pattern multi_line_pattern) =
     (single_line_pattern \<in> set [None, Some py_single_line_pattern,
                                   Some js_single_line_pattern, Some html_single_line_pattern]
      \<and> multi_line_pattern \<in> set [None, Some py_multi_line_pattern,
                                    Some js_multi_line_pattern, Some html_multi_line_pattern])"
| "default_or_builtin (WhitespaceReductionAction preserve_newlines) = True"
| "default_or_builtin EmptyLineRemovalAction = True"
| "default_or_builtin (OperatorSpaceRemovalAction patterns) =
     (patterns = default_operator_patterns)"
| "default_or_builtin (LineJoiningAction separator) = True"
| "default_or_builtin (CompositeMinificationAction actions) = all_default_or_builtin actions"
| "default_or_builtin (NamedAction name a) = default_or_builtin a"
| "all_default_or_builtin [] = True"
| "all_default_or_builtin (a # as) = (default_or_builtin a \<and> all_default_or_builtin as)"

text \<open>The keyword arguments of a call that gives none.\<close>

definition no_kwargs :: kwargs where
  "no_kwargs =
     \<lparr>kw_preserve_newlines = None, kw_single_line_pattern = None,
      kw_multi_line_pattern = None, kw_patterns = None, kw_separator = None,
      kw_other = []\<rparr>"

text \<open>A world with no object in it.\<close>

definition empty_world :: world where
  "empty_world = \<lparr>lists = (\<lambda>a. []), next_addr = 0\<rparr>"

text \<open>The files a run of \<open>minify_project\<close> looks at: those of the folders the walk
  yields, the skipped folders left out, each with its folder.\<close>

definition walked_files ::
    "string list \<Rightarrow> (string \<times> string list \<times> string list) list \<Rightarrow> (string \<times> string) list" where
  "walked_files files_to_skip walk =
     concat (map (\<lambda>(foldername, subfolders, filenames).
                    if skip_this_dir files_to_skip foldername then []
                    else map (\<lambda>filename. (foldername, filename)) filenames) walk)"

text \<open>The specification's second kind of skip: the output of the file at its derived
  path already exists with the content minification gives now.\<close>

definition output_identical ::
    "minifier_registry \<Rightarrow> string \<Rightarrow> filesystem \<Rightarrow> string \<Rightarrow> string \<Rightarrow> bool" where
  "output_identical reg suffix fs foldername filename =
     (let file_path = path_join foldername filename
      in case get_minifier_for_extension reg (lower (snd (splitext filename))) of
           None \<Rightarrow> False
         | Some minifier \<Rightarrow>
             (case read_file fs file_path of
                Inl e \<Rightarrow> False
              | Inr code \<Rightarrow>
                  (case lm_minify minifier code of
                     Inl e \<Rightarrow> False
                   | Inr minified_code \<Rightarrow>
                       file_exists fs (get_minified_path file_path suffix)
                       \<and> read_file fs (get_minified_path file_path suffix)
                           = Inr minified_code)))"

text \<open>The specification's count of skipped files: the eligible files (their extension
  is one to process) that carry the suffix marker or whose output is identical.\<close>

definition spec_skipped_count ::
    "minifier_registry \<Rightarrow> string list \<Rightarrow> string \<Rightarrow> filesystem
       \<Rightarrow> (string \<times> string) list \<Rightarrow> nat" where
  "spec_skipped_count reg extensions_to_process suffix fs fls =
     length (filter (\<lambda>(foldername, filename).
                lower (snd (splitext filename)) \<in> set extensions_to_process
                \<and> (contains filename suffix
                     \<or> output_identical reg suffix fs foldername filename)) fls)"

text \<open>
  A small project for the examples below: a registry with one minifier for \<open>.py\<close>
  files, which removes empty lines, and a folder \<open>p\<close> with the file \<open>a.py\<close>, its
  minified output \<open>a.min.py\<close> from an earlier run, and a file \<open>b.py\<close> not minified yet.
\<close>

definition example_minifier :: language_minifier where
  "example_minifier =
     \<lparr>lm_name = ''python'', lm_file_extensions = [''.py''],
      lm_minify = apply_action (CompositeMinificationAction [EmptyLineRemovalAction])\<rparr>"

definition example_registry :: minifier_registry where
  "example_registry =
     register_minifier \<lparr>reg_minifiers = [], reg_extension_map = []\<rparr> example_minifier"

definition example_project :: project_minifier where
  "example_project = new_ProjectMinifier example_registry None"

definition example_fs :: filesystem where
  "example_fs =
     \<lparr>files = [''p/a.py'' \<mapsto> Text ''x'', ''p/a.min.py'' \<mapsto> Text ''x'',
               ''p/b.py'' \<mapsto> Text ''y''],
      unwritable = {}, written = []\<rparr>"

definition example_walk :: "(string \<times> string list \<times> string list) list" where
  "example_walk = [(''p'', [], [''a.py'', ''a.min.py'', ''b.py''])]"

section \<open>Line joining\<close>

lemma line_joining_loop_eq:
  "line_joining_loop sep i ls result =
     result @ (if ls = [] then [] else (if 0 < i then sep else []) @
       str_join sep (map (\<lambda>l. if endswith l sep then butlast l else l) ls))"
proof (induction ls arbitrary: i result)
  case Nil
  then show ?case by simp
next
  case (Cons l ls)
  let ?piece = "\<lambda>l. if endswith l sep then butlast l else l"
  let ?r = "(if 0 < i then result @ sep else result) @ ?piece l"
  have "line_joining_loop sep i (l # ls) result = line_joining_loop sep (Suc i) ls ?r"
    by (simp add: Let_def)
  also have "\<dots> = ?r @ (if ls = [] then [] else sep @ str_join sep (map ?piece ls))"
    by (simp add: Cons.IH)
  also have "\<dots> = result @ (if 0 < i then sep else []) @ str_join sep (map ?piece (l # ls))"
    by (cases ls) simp_all
  finally show ?case by simp
qed

lemma line_joining_eq:
  "line_joining sep code =
     str_join sep (map (\<lambda>l. if endswith l sep then butlast l else l)
       (map strip (filter (\<lambda>line. strip line \<noteq> []) (str_split NL code))))"
  by (simp add: line_joining_def line_joining_loop_eq Let_def)

lemma endswith_butlast:
  assumes "endswith line sep" "line \<noteq> []"
  shows "(butlast line = take (length line - length sep) line) = (length sep = 1)"
proof -
  have "butlast line = take (length line - 1) line" by (simp add: butlast_conv_take)
  moreover have "length sep \<le> length line" using assms by (simp add: endswith_def)
  moreover have "0 < length line" using assms by simp
  ultimately show ?thesis
    by (metis One_nat_def diff_diff_cancel diff_le_self length_take min.absorb2 Suc_leI)
qed

lemmas string_defs =
  strip_def lstrip_def rstrip_def isspace_def whitespace_chars_def endswith_def

text \<open>
  C6, at a separator of two characters. The line \<open>a&&\<close> ends with the separator \<open>&&\<close>;
  the action removes its last character only, and the joined text is \<open>a&&&b\<close>, where
  removing the separator would give \<open>a&&b\<close>.
\<close>

theorem line_joining_two_character_separator:
  "line_joining ''&&'' (''a&&'' @ [NL] @ ''b'') = ''a&&&b''"
  by (simp add: line_joining_def string_defs)

text \<open>With the separator \<open>;\<close> the example of the specification holds, and for every
  separator of one character a line that ends with it loses exactly that separator.\<close>

lemma line_joining_semicolon_example:
  "line_joining '';'' (''a;'' @ [NL] @ ''b'' @ [NL] @ ''c;'') = ''a;b;c''"
  by (simp add: line_joining_def string_defs)

lemma line_joining_one_character_separator:
  "line_joining [c] code =
     str_join [c] (map (\<lambda>l. if endswith l [c] then take (length l - length [c]) l else l)
       (map strip (filter (\<lambda>line. strip line \<noteq> []) (str_split NL code))))"
proof -
  have "(\<lambda>l. if endswith l [c] then butlast l else l)
      = (\<lambda>l. if endswith l [c] then take (length l - length [c]) l else l)"
    by (rule ext) (simp add: butlast_conv_take)
  then show ?thesis by (simp only: line_joining_eq)
qed

lemma butlast_of_separator_line:
  assumes e: "endswith line separator" and ne: "line \<noteq> []"
  shows "(1 < length separator \<longrightarrow>
            butlast line = take (length line - length separator) line @ butlast separator
            \<and> butlast line \<noteq> take (length line - length separator) line)
         \<and> ((butlast line = take (length line - length separator) line)
              = (length separator = 1))"
proof -
  have iff: "(butlast line = take (length line - length separator) line)
          = (length separator = 1)"
    by (rule endswith_butlast [OF e ne])
  have long: "butlast line = take (length line - length separator) line @ butlast separator
          \<and> butlast line \<noteq> take (length line - length separator) line"
    if l: "1 < length separator"
  proof -
    from e have "line = take (length line - length separator) line @ separator"
      by (metis append_take_drop_id endswith_def)
    moreover from l have "separator \<noteq> []" by auto
    ultimately have "butlast line
        = take (length line - length separator) line @ butlast separator"
      by (metis butlast_append)
    moreover from l iff have "butlast line \<noteq> take (length line - length separator) line"
      by simp
    ultimately show ?thesis by simp
  qed
  from iff long show ?thesis by blast
qed

lemma retained_lines_not_empty:
  "line \<in> set (map strip (filter (\<lambda>line. strip line \<noteq> []) (str_split NL code)))
     \<Longrightarrow> line \<noteq> []"
  by auto

text \<open>
  C10. The line-joining action returns the retained lines (the lines of the input that
  are not empty after trimming, trimmed) joined by the separator, where a retained line
  that ends with the separator enters without its last character. For such a line and a
  separator longer than one character that is the line without the separator followed
  by all but the last character of the separator, so not the line without the separator;
  and what enters is the line without the separator exactly when the separator has one
  character.
\<close>

theorem line_joining_removes_one_character:
  "apply_action (LineJoiningAction separator) code =
     Inr (str_join separator
            (map (\<lambda>line. if endswith line separator then butlast line else line)
               (map strip (filter (\<lambda>line. strip line \<noteq> []) (str_split NL code)))))
   \<and> (\<forall>line \<in> set (map strip (filter (\<lambda>line. strip line \<noteq> []) (str_split NL code))).
         endswith line separator \<longrightarrow>
           (1 < length separator \<longrightarrow>
              butlast line = take (length line - length separator) line @ butlast separator
              \<and> butlast line \<noteq> take (length line - length separator) line)
           \<and> ((butlast line = take (length line - length separator) line)
                = (length separator = 1)))"
proof (rule conjI)
  show "apply_action (LineJoiningAction separator) code =
     Inr (str_join separator
            (map (\<lambda>line. if endswith line separator then butlast line else line)
               (map strip (filter (\<lambda>line. strip line \<noteq> []) (str_split NL code)))))"
    by (simp only: apply_action.simps line_joining_eq)
next
  show "\<forall>line \<in> set (map strip (filter (\<lambda>line. strip line \<noteq> []) (str_split NL code))).
         endswith line separator \<longrightarrow>
           (1 < length separator \<longrightarrow>
              butlast line = take (length line - length separator) line @ butlast separator
              \<and> butlast line \<noteq> take (length line - length separator) line)
           \<and> ((butlast line = take (length line - length separator) line)
                = (length separator = 1))"
  proof (rule ballI, rule impI)
    fix line
    assume "line \<in> set (map strip (filter (\<lambda>line. strip line \<noteq> []) (str_split NL code)))"
      and e: "endswith line separator"
    then have ne: "line \<noteq> []" by (intro retained_lines_not_empty)
    from butlast_of_separator_line [OF e ne]
    show "(1 < length separator \<longrightarrow>
              butlast line = take (length line - length separator) line @ butlast separator
              \<and> butlast line \<noteq> take (length line - length separator) line)
           \<and> ((butlast line = take (length line - length separator) line)
                = (length separator = 1))" .
  qed
qed

theorem line_joining_removes_one_character_witness:
  "''a&&'' \<in> set (map strip (filter (\<lambda>line. strip line \<noteq> [])
                        (str_split NL (''a&&'' @ [NL] @ ''b''))))
   \<and> endswith ''a&&'' ''&&'' \<and> 1 < length ''&&''
   \<and> apply_action (LineJoiningAction ''&&'') (''a&&'' @ [NL] @ ''b'') = Inr ''a&&&b''
   \<and> butlast ''a&&'' = take (length ''a&&'' - length ''&&'') ''a&&'' @ butlast ''&&''
   \<and> butlast ''a&&'' \<noteq> take (length ''a&&'' - length ''&&'') ''a&&''"
proof -
  have m: "''a&&'' \<in> set (map strip (filter (\<lambda>line. strip line \<noteq> [])
                        (str_split NL (''a&&'' @ [NL] @ ''b''))))"
    by (simp add: string_defs)
  have e: "endswith ''a&&'' ''&&''" by (simp add: endswith_def)
  have v: "str_join ''&&''
            (map (\<lambda>line. if endswith line ''&&'' then butlast line else line)
               (map strip (filter (\<lambda>line. strip line \<noteq> [])
                  (str_split NL (''a&&'' @ [NL] @ ''b''))))) = ''a&&&b''"
    by (simp add: string_defs)
  from line_joining_removes_one_character [of "''&&''" "''a&&'' @ [NL] @ ''b''"]
  have a: "apply_action (LineJoiningAction ''&&'') (''a&&'' @ [NL] @ ''b'') = Inr ''a&&&b''"
    and b: "\<forall>line \<in> set (map strip (filter (\<lambda>line. strip line \<noteq> [])
                        (str_split NL (''a&&'' @ [NL] @ ''b'')))).
         endswith line ''&&'' \<longrightarrow>
           (1 < length ''&&'' \<longrightarrow>
              butlast line = take (length line - length ''&&'') line @ butlast ''&&''
              \<and> butlast line \<noteq> take (length line - length ''&&'') line)
           \<and> ((butlast line = take (length line - length ''&&'') line)
                = (length ''&&'' = 1))"
    unfolding v by blast+
  from b m e have "1 < length ''&&'' \<longrightarrow>
              butlast ''a&&'' = take (length ''a&&'' - length ''&&'') ''a&&'' @ butlast ''&&''
              \<and> butlast ''a&&'' \<noteq> take (length ''a&&'' - length ''&&'') ''a&&''"
    by blast
  with m e a show ?thesis by simp
qed

section \<open>Composite\<close>

lemma apply_actions_append:
  "apply_actions (xs @ ys) t = bind_result (apply_actions xs t) (apply_actions ys)"
  by (induction xs arbitrary: t) (auto simp: bind_result_def split: sum.splits)

text \<open>
  C2. Applying the composite of \<open>[A, B]\<close> and then \<open>C\<close> to the result is applying the
  composite of \<open>[A, B, C]\<close>; a composite hands the output of its first action to the
  composite of the others, so a composite of \<open>xs @ ys\<close> is the composite of \<open>xs\<close>
  followed by that of \<open>ys\<close>; and a composite built from an empty list, or from no list,
  returns its input.
\<close>

theorem composite_associativity:
  "bind_result (apply_action (CompositeMinificationAction [A, B]) t) (apply_action C)
     = apply_action (CompositeMinificationAction [A, B, C]) t
   \<and> apply_action (CompositeMinificationAction (a # as)) t
     = bind_result (apply_action a t) (apply_action (CompositeMinificationAction as))
   \<and> apply_action (CompositeMinificationAction (xs @ ys)) t
     = bind_result (apply_action (CompositeMinificationAction xs) t)
         (apply_action (CompositeMinificationAction ys))
   \<and> apply_action (new_CompositeMinificationAction (Some [])) t = Inr t
   \<and> apply_action (new_CompositeMinificationAction None) t = Inr t"
  using apply_actions_append [of xs ys t]
  by (auto simp: bind_result_def new_CompositeMinificationAction_def split: sum.splits)

section \<open>Whitespace reduction\<close>

lemma star_greedy_total:
  "star_greedy p s (\<lambda>s'. Some (f s')) = Some (f (dropWhile p s))"
  by (induction s) auto

lemma match_here_whitespace_run:
  "match_here d m whitespace_run s False =
     (case s of
        [] \<Rightarrow> None
      | c # cs \<Rightarrow> if isspace c then Some (dropWhile isspace cs, \<lambda>n. None) else None)"
proof (cases s)
  case Nil
  then show ?thesis by (simp add: match_here_def whitespace_run_def)
next
  case (Cons c cs)
  have "cset_matches d CSpace = isspace" by (rule ext) simp
  then show ?thesis
    using star_greedy_total [of isspace cs "\<lambda>s'. (s', \<lambda>n. None)"] Cons
    by (simp add: match_here_def whitespace_run_def)
qed

lemma sub_loop_whitespace_run:
  "sub_loop d m whitespace_run [TLit (CHR '' '')] s False = collapse_whitespace s"
proof (induction s rule: collapse_whitespace.induct)
  case 1
  show ?case
    by (subst sub_loop.simps) (simp add: match_here_whitespace_run)
next
  case (2 c cs)
  show ?case
  proof (cases "isspace c")
    case True
    have "length (dropWhile isspace cs) \<noteq> Suc (length cs)"
      using length_dropWhile_le [of isspace cs] by simp
    with True 2 show ?thesis
      by (subst sub_loop.simps) (simp add: match_here_whitespace_run)
  next
    case False
    with 2 show ?thesis
      by (subst sub_loop.simps) (simp add: match_here_whitespace_run)
  qed
qed

lemma map_result_total: "map_result (\<lambda>x. Inr (f x)) xs = Inr (map f xs)"
  by (induction xs) auto

lemma re_sub_whitespace_run:
  "re_sub whitespace_run [TLit (CHR '' '')] s d m = Inr (collapse_whitespace s)"
  by (simp add: re_sub_def sub_loop_whitespace_run)

lemma whitespace_reduction_eq:
  "whitespace_reduction preserve_newlines t
     = Inr (spec_whitespace_reduction preserve_newlines t)"
  by (simp add: whitespace_reduction_def spec_whitespace_reduction_def re_sub_whitespace_run
      bind_result_def map_result_total)

text \<open>
  C3. What \<open>WhitespaceReductionAction\<close> computes through \<open>re.sub\<close> with the pattern
  \<open>\s+\<close> is what the specification describes: with newlines preserved, the lines
  (split at newlines) each with every whitespace run collapsed to one space and
  trimmed, joined by newlines; without, the whole text collapsed and trimmed.
\<close>

theorem whitespace_reduction_spec:
  "apply_action (WhitespaceReductionAction True) t =
     Inr (str_join [NL] (map (\<lambda>line. strip (collapse_whitespace line)) (str_split NL t)))
   \<and> apply_action (WhitespaceReductionAction False) t = Inr (strip (collapse_whitespace t))
   \<and> apply_action (WhitespaceReductionAction preserve_newlines) t =
       Inr (spec_whitespace_reduction preserve_newlines t)"
  by (simp add: whitespace_reduction_eq spec_whitespace_reduction_def)

section \<open>Comment removal\<close>

lemma sub_loop_no_match:
  "matches_nowhere d m r s \<Longrightarrow> sub_loop d m r repl s False = s"
proof (induction s)
  case Nil
  then show ?case by (subst sub_loop.simps) simp
next
  case (Cons c cs)
  then show ?case by (subst sub_loop.simps) simp
qed

lemma re_sub_no_match:
  "matches_nowhere d m r s \<Longrightarrow> re_sub r [] s d m = Inr s"
  by (simp add: re_sub_def sub_loop_no_match)

text \<open>
  C4. Comment removal with both patterns absent returns its input; and so it does when
  each pattern that is present matches nowhere in the text, the multi-line pattern
  under \<open>re.DOTALL\<close> and the single-line pattern under \<open>re.MULTILINE\<close>, as the action
  applies them.
\<close>

theorem comment_removal_identity:
  "apply_action (CommentRemovalAction None None) t = Inr t
   \<and> ((\<forall>p. multi_line_pattern = Some p \<longrightarrow> matches_nowhere True False p t)
        \<and> (\<forall>p. single_line_pattern = Some p \<longrightarrow> matches_nowhere False True p t)
      \<longrightarrow> apply_action (CommentRemovalAction single_line_pattern multi_line_pattern) t
            = Inr t)"
  by (auto simp: comment_removal_def bind_result_def re_sub_no_match split: option.splits)

lemmas pattern_defs =
  py_single_line_pattern_def py_multi_line_pattern_def js_single_line_pattern_def
  js_multi_line_pattern_def html_single_line_pattern_def html_multi_line_pattern_def

theorem comment_removal_identity_witness:
  "matches_nowhere True False js_multi_line_pattern ''x = 5 / 2;''
   \<and> matches_nowhere False True js_single_line_pattern ''x = 5 / 2;''
   \<and> apply_action (CommentRemovalAction (Some js_single_line_pattern)
        (Some js_multi_line_pattern)) ''x = 5 / 2;'' = Inr ''x = 5 / 2;''"
proof -
  have m: "matches_nowhere True False js_multi_line_pattern ''x = 5 / 2;''"
    by (simp add: match_here_def pattern_defs)
  have s: "matches_nowhere False True js_single_line_pattern ''x = 5 / 2;''"
    by (simp add: match_here_def pattern_defs)
  from m s comment_removal_identity [of "''x = 5 / 2;''" "Some js_multi_line_pattern"
      "Some js_single_line_pattern"]
  show ?thesis by simp
qed

section \<open>Totality\<close>

lemma comment_removal_total: "\<exists>r. comment_removal s m t = Inr r"
  by (auto simp: comment_removal_def re_sub_def bind_result_def split: option.splits)

lemma operator_space_removal_total:
  "list_all (\<lambda>p. 1 \<le> rx_groups p) ps \<Longrightarrow> \<exists>r. operator_space_removal ps t = Inr r"
  by (induction ps arbitrary: t) (auto simp: re_sub_def)

lemma default_operator_patterns_groups:
  "list_all (\<lambda>p. 1 \<le> rx_groups p) default_operator_patterns"
  by (simp add: default_operator_patterns_def around_def)

lemma apply_total_aux:
  "default_or_builtin a \<longrightarrow> (\<forall>t. \<exists>r. apply_action a t = Inr r)"
  "all_default_or_builtin as \<longrightarrow> (\<forall>t. \<exists>r. apply_actions as t = Inr r)"
proof (induction a and as rule: default_or_builtin_all_default_or_builtin.induct)
  case (1 s m)
  show ?case using comment_removal_total by simp
next
  case (2 p)
  show ?case by (simp add: whitespace_reduction_eq)
next
  case 3
  show ?case by simp
next
  case (4 ps)
  show ?case
    using operator_space_removal_total [OF default_operator_patterns_groups] by simp
next
  case (5 sep)
  show ?case by simp
next
  case (6 actions)
  then show ?case by simp
next
  case (7 name a)
  then show ?case by simp
next
  case 8
  show ?case by simp
next
  case (9 a as)
  show ?case
  proof (intro impI allI)
    fix t assume h: "all_default_or_builtin (a # as)"
    with 9 obtain r where r: "apply_action a t = Inr r" by auto
    from h 9 obtain r' where "apply_actions as r = Inr r'" by auto
    with r show "\<exists>r. apply_actions (a # as) t = Inr r" by simp
  qed
qed

text \<open>
  C1. An action of any of the six classes, built with its default parameters or with the
  parameters of a built-in language minifier (a composite of such actions included),
  returns a string for every input: \<open>apply\<close> is a terminating function and no error
  is its result. The six default constructions are among these actions.
\<close>

theorem apply_total:
  "(default_or_builtin a \<longrightarrow> (\<exists>r. apply_action a t = Inr r))
   \<and> default_or_builtin (CommentRemovalAction None None)
   \<and> default_or_builtin (WhitespaceReductionAction False)
   \<and> default_or_builtin EmptyLineRemovalAction
   \<and> default_or_builtin (new_OperatorSpaceRemovalAction None)
   \<and> default_or_builtin (LineJoiningAction '';'')
   \<and> default_or_builtin (new_CompositeMinificationAction None)"
  using apply_total_aux(1) [of a]
  by (simp add: new_OperatorSpaceRemovalAction_def new_CompositeMinificationAction_def)

theorem apply_total_witness:
  "default_or_builtin
     (CompositeMinificationAction
        [CommentRemovalAction (Some py_single_line_pattern) (Some py_multi_line_pattern),
         WhitespaceReductionAction True, EmptyLineRemovalAction,
         new_OperatorSpaceRemovalAction None, LineJoiningAction '';''])
   \<and> (\<exists>r. apply_action
       (CompositeMinificationAction
          [CommentRemovalAction (Some py_single_line_pattern) (Some py_multi_line_pattern),
           WhitespaceReductionAction True, EmptyLineRemovalAction,
           new_OperatorSpaceRemovalAction None, LineJoiningAction '';'']) [] = Inr r)"
  using apply_total [of "CompositeMinificationAction
        [CommentRemovalAction (Some py_single_line_pattern) (Some py_multi_line_pattern),
         WhitespaceReductionAction True, EmptyLineRemovalAction,
         new_OperatorSpaceRemovalAction None, LineJoiningAction '';'']" "[]"]
  by (simp add: new_OperatorSpaceRemovalAction_def)

section \<open>Toggles of the language minifiers\<close>

lemmas setter_defs =
  py_set_preserve_newlines_def py_set_preserve_docstrings_def
  js_set_preserve_newlines_def js_set_aggressive_def html_set_preserve_newlines_def

lemma new_composite_id:
  "next_addr w \<le> comp_id (fst (new_composite w l))
   \<and> comp_id (fst (new_composite w l)) < next_addr (snd (new_composite w l))"
  by (simp add: new_composite_def new_list_def Let_def)

lemma list_append_next: "next_addr (list_append w l a) = next_addr w"
  by (simp add: list_append_def)

lemma new_list_next: "next_addr (snd (new_list w xs)) = Suc (next_addr w)"
  by (simp add: new_list_def)

lemma py_create_action_id:
  "next_addr w < comp_id (fst (py_create_action pn pd w))
   \<and> comp_id (fst (py_create_action pn pd w)) < next_addr (snd (py_create_action pn pd w))"
proof -
  obtain w5 where "py_create_action pn pd w = new_composite w5 (fst (new_list w []))"
    and "next_addr w5 = Suc (next_addr w)"
    by (simp add: py_create_action_def Let_def split_beta list_append_next new_list_next)
  with new_composite_id [of w5 "fst (new_list w [])"] show ?thesis by simp
qed

lemma js_create_action_id:
  "next_addr w < comp_id (fst (js_create_action pn ag w))
   \<and> comp_id (fst (js_create_action pn ag w)) < next_addr (snd (js_create_action pn ag w))"
proof -
  obtain w2 xs where "js_create_action pn ag w = new_composite w2 (fst (new_list w xs))"
    and "next_addr w2 = Suc (next_addr w)"
    by (simp add: js_create_action_def Let_def split_beta list_append_next new_list_next)
  with new_composite_id [of w2 "fst (new_list w xs)"] show ?thesis by simp
qed

lemma html_create_action_id:
  "next_addr w < comp_id (fst (html_create_action pn w))
   \<and> comp_id (fst (html_create_action pn w)) < next_addr (snd (html_create_action pn w))"
proof -
  obtain w2 xs where "html_create_action pn w = new_composite w2 (fst (new_list w xs))"
    and "next_addr w2 = Suc (next_addr w)"
    by (simp add: html_create_action_def Let_def split_beta new_list_next)
  with new_composite_id [of w2 "fst (new_list w xs)"] show ?thesis by simp
qed

lemma composite_differs:
  "comp_id b < n \<Longrightarrow> n < comp_id a \<Longrightarrow> a \<noteq> b"
  by auto

text \<open>
  C5. For each of the five toggle setters of the Python, JavaScript and HTML minifiers:
  called with the value the minifier has, it returns the minifier and the world as they
  were, so the composite object is the same object and \<open>minify\<close> gives the same output
  on every text. Against that, for a minifier whose composite was allocated in the world
  (its address is below the next free one), the setter called with the other value
  installs a composite that is another object. In every case \<open>minify\<close> applies the
  actions of the minifier's current composite.
\<close>

theorem toggle_noop:
  "py_set_preserve_newlines (py_preserve_newlines pm) (pm, w) = (pm, w)
   \<and> py_action (fst (py_set_preserve_newlines (py_preserve_newlines pm) (pm, w)))
       = py_action pm
   \<and> py_minify (py_set_preserve_newlines (py_preserve_newlines pm) (pm, w)) t
       = py_minify (pm, w) t
   \<and> py_set_preserve_docstrings (py_preserve_docstrings pm) (pm, w) = (pm, w)
   \<and> py_action (fst (py_set_preserve_docstrings (py_preserve_docstrings pm) (pm, w)))
       = py_action pm
   \<and> py_minify (py_set_preserve_docstrings (py_preserve_docstrings pm) (pm, w)) t
       = py_minify (pm, w) t
   \<and> js_set_preserve_newlines (js_preserve_newlines jm) (jm, w) = (jm, w)
   \<and> js_action (fst (js_set_preserve_newlines (js_preserve_newlines jm) (jm, w)))
       = js_action jm
   \<and> js_minify (js_set_preserve_newlines (js_preserve_newlines jm) (jm, w)) t
       = js_minify (jm, w) t
   \<and> js_set_aggressive (js_aggressive jm) (jm, w) = (jm, w)
   \<and> js_action (fst (js_set_aggressive (js_aggressive jm) (jm, w))) = js_action jm
   \<and> js_minify (js_set_aggressive (js_aggressive jm) (jm, w)) t = js_minify (jm, w) t
   \<and> html_set_preserve_newlines (html_preserve_newlines hm) (hm, w) = (hm, w)
   \<and> html_action (fst (html_set_preserve_newlines (html_preserve_newlines hm) (hm, w)))
       = html_action hm
   \<and> html_minify (html_set_preserve_newlines (html_preserve_newlines hm) (hm, w)) t
       = html_minify (hm, w) t
   \<and> (comp_id (py_action pm) < next_addr w \<longrightarrow>
        py_action (fst (py_set_preserve_newlines (\<not> py_preserve_newlines pm) (pm, w)))
          \<noteq> py_action pm
        \<and> py_action (fst (py_set_preserve_docstrings (\<not> py_preserve_docstrings pm) (pm, w)))
          \<noteq> py_action pm)
   \<and> (comp_id (js_action jm) < next_addr w \<longrightarrow>
        js_action (fst (js_set_preserve_newlines (\<not> js_preserve_newlines jm) (jm, w)))
          \<noteq> js_action jm
        \<and> js_action (fst (js_set_aggressive (\<not> js_aggressive jm) (jm, w))) \<noteq> js_action jm)
   \<and> (comp_id (html_action hm) < next_addr w \<longrightarrow>
        html_action (fst (html_set_preserve_newlines (\<not> html_preserve_newlines hm) (hm, w)))
          \<noteq> html_action hm)
   \<and> py_minify (pm, w) t
       = apply_action (CompositeMinificationAction (lists w (comp_actions (py_action pm)))) t
   \<and> js_minify (jm, w) t
       = apply_action (CompositeMinificationAction (lists w (comp_actions (js_action jm)))) t
   \<and> html_minify (hm, w) t
       = apply_action (CompositeMinificationAction (lists w (comp_actions (html_action hm)))) t"
proof -
  have noop:
    "py_set_preserve_newlines (py_preserve_newlines pm) (pm, w) = (pm, w)"
    "py_set_preserve_docstrings (py_preserve_docstrings pm) (pm, w) = (pm, w)"
    "js_set_preserve_newlines (js_preserve_newlines jm) (jm, w) = (jm, w)"
    "js_set_aggressive (js_aggressive jm) (jm, w) = (jm, w)"
    "html_set_preserve_newlines (html_preserve_newlines hm) (hm, w) = (hm, w)"
    by (simp_all add: setter_defs)
  have py: "py_action (fst (py_set_preserve_newlines (\<not> py_preserve_newlines pm) (pm, w)))
          \<noteq> py_action pm
        \<and> py_action (fst (py_set_preserve_docstrings (\<not> py_preserve_docstrings pm) (pm, w)))
          \<noteq> py_action pm"
    if h: "comp_id (py_action pm) < next_addr w"
    using composite_differs [OF h conjunct1 [OF py_create_action_id
          [of w "\<not> py_preserve_newlines pm" "py_preserve_docstrings pm"]]]
      composite_differs [OF h conjunct1 [OF py_create_action_id
          [of w "py_preserve_newlines pm" "\<not> py_preserve_docstrings pm"]]]
    by (simp add: setter_defs Let_def split_beta)
  have js: "js_action (fst (js_set_preserve_newlines (\<not> js_preserve_newlines jm) (jm, w)))
          \<noteq> js_action jm
        \<and> js_action (fst (js_set_aggressive (\<not> js_aggressive jm) (jm, w))) \<noteq> js_action jm"
    if h: "comp_id (js_action jm) < next_addr w"
    using composite_differs [OF h conjunct1 [OF js_create_action_id
          [of w "\<not> js_preserve_newlines jm" "js_aggressive jm"]]]
      composite_differs [OF h conjunct1 [OF js_create_action_id
          [of w "js_preserve_newlines jm" "\<not> js_aggressive jm"]]]
    by (simp add: setter_defs Let_def split_beta)
  have html:
    "html_action (fst (html_set_preserve_newlines (\<not> html_preserve_newlines hm) (hm, w)))
          \<noteq> html_action hm"
    if h: "comp_id (html_action hm) < next_addr w"
    using composite_differs [OF h conjunct1 [OF html_create_action_id
          [of w "\<not> html_preserve_newlines hm"]]]
    by (simp add: setter_defs Let_def split_beta)
  have minify:
    "py_minify (pm, w) t
       = apply_action (CompositeMinificationAction (lists w (comp_actions (py_action pm)))) t"
    "js_minify (jm, w) t
       = apply_action (CompositeMinificationAction (lists w (comp_actions (js_action jm)))) t"
    "html_minify (hm, w) t
       = apply_action (CompositeMinificationAction (lists w (comp_actions (html_action hm)))) t"
    by (simp_all add: py_minify_def js_minify_def html_minify_def composite_apply_def)
  from py js html minify show ?thesis unfolding noop by simp
qed

lemma new_minifier_allocated:
  "comp_id (py_action (fst (new_PythonMinifier pn pd w)))
     < next_addr (snd (new_PythonMinifier pn pd w))"
  "comp_id (js_action (fst (new_JavaScriptMinifier pn ag w)))
     < next_addr (snd (new_JavaScriptMinifier pn ag w))"
  "comp_id (html_action (fst (new_HTMLMinifier pn w)))
     < next_addr (snd (new_HTMLMinifier pn w))"
  using py_create_action_id [of w pn pd] js_create_action_id [of w pn ag]
    html_create_action_id [of w pn]
  by (simp_all add: new_PythonMinifier_def new_JavaScriptMinifier_def new_HTMLMinifier_def
      split_beta)

lemmas minifier_eval_defs =
  new_PythonMinifier_def py_create_action_def py_minify_def new_composite_def new_list_def
  list_append_def composite_apply_def empty_world_def new_OperatorSpaceRemovalAction_def
  comment_removal_def whitespace_reduction_def empty_line_removal_def re_sub_def
  bind_result_def match_here_def whitespace_run_def pattern_defs sub_loop.simps
  string_defs setter_defs

lemma python_minifier_example:
  "py_minify (new_PythonMinifier True False empty_world) (''x  # c'' @ [NL] @ ''y'')
     = Inr (''x'' @ [NL] @ ''y'')"
  by (simp add: minifier_eval_defs Let_def)

lemma python_minifier_toggled_example:
  "py_minify (py_set_preserve_newlines False (new_PythonMinifier True False empty_world))
      (''x  # c'' @ [NL] @ ''y'') = Inr ''x y''"
  by (simp add: minifier_eval_defs Let_def default_operator_patterns_def around_def)

theorem toggle_noop_witness:
  "comp_id (py_action (fst (new_PythonMinifier True False empty_world)))
     < next_addr (snd (new_PythonMinifier True False empty_world))
   \<and> py_set_preserve_newlines True (new_PythonMinifier True False empty_world)
       = new_PythonMinifier True False empty_world
   \<and> py_minify (py_set_preserve_newlines True (new_PythonMinifier True False empty_world))
         (''x  # c'' @ [NL] @ ''y'') = Inr (''x'' @ [NL] @ ''y'')
   \<and> py_action (fst (py_set_preserve_newlines False
                        (new_PythonMinifier True False empty_world)))
       \<noteq> py_action (fst (new_PythonMinifier True False empty_world))
   \<and> comp_id (js_action (fst (new_JavaScriptMinifier True False empty_world)))
     < next_addr (snd (new_JavaScriptMinifier True False empty_world))
   \<and> js_action (fst (js_set_aggressive True
                        (new_JavaScriptMinifier True False empty_world)))
       \<noteq> js_action (fst (new_JavaScriptMinifier True False empty_world))
   \<and> comp_id (html_action (fst (new_HTMLMinifier True empty_world)))
     < next_addr (snd (new_HTMLMinifier True empty_world))
   \<and> html_action (fst (html_set_preserve_newlines False (new_HTMLMinifier True empty_world)))
       \<noteq> html_action (fst (new_HTMLMinifier True empty_world))"
proof -
  have pn: "py_preserve_newlines (fst (new_PythonMinifier True False empty_world)) = True"
    by (simp add: new_PythonMinifier_def split_beta)
  have ja: "js_aggressive (fst (new_JavaScriptMinifier True False empty_world)) = False"
    by (simp add: new_JavaScriptMinifier_def split_beta)
  have hn: "html_preserve_newlines (fst (new_HTMLMinifier True empty_world)) = True"
    by (simp add: new_HTMLMinifier_def split_beta)
  from toggle_noop [where pm = "fst (new_PythonMinifier True False empty_world)"
      and w = "snd (new_PythonMinifier True False empty_world)"]
    new_minifier_allocated(1) [of True False empty_world] pn
  have a: "py_set_preserve_newlines True (new_PythonMinifier True False empty_world)
       = new_PythonMinifier True False empty_world
     \<and> py_action (fst (py_set_preserve_newlines False
                        (new_PythonMinifier True False empty_world)))
       \<noteq> py_action (fst (new_PythonMinifier True False empty_world))"
    by simp
  from toggle_noop [where jm = "fst (new_JavaScriptMinifier True False empty_world)"
      and w = "snd (new_JavaScriptMinifier True False empty_world)"]
    new_minifier_allocated(2) [of True False empty_world] ja
  have b: "js_action (fst (js_set_aggressive True
                        (new_JavaScriptMinifier True False empty_world)))
       \<noteq> js_action (fst (new_JavaScriptMinifier True False empty_world))"
    by simp
  from toggle_noop [where hm = "fst (new_HTMLMinifier True empty_world)"
      and w = "snd (new_HTMLMinifier True empty_world)"]
    new_minifier_allocated(3) [of True empty_world] hn
  have c: "html_action (fst (html_set_preserve_newlines False
                        (new_HTMLMinifier True empty_world)))
       \<noteq> html_action (fst (new_HTMLMinifier True empty_world))"
    by simp
  from a python_minifier_example
  have d: "py_minify (py_set_preserve_newlines True
                        (new_PythonMinifier True False empty_world))
         (''x  # c'' @ [NL] @ ''y'') = Inr (''x'' @ [NL] @ ''y'')"
    by (simp only:)
  from a b c d new_minifier_allocated(1) [of True False empty_world]
    new_minifier_allocated(2) [of True False empty_world]
    new_minifier_allocated(3) [of True empty_world]
  show ?thesis by (simp only: simp_thms)
qed

section \<open>The custom minifier\<close>

lemma composite_apply_new:
  "composite_apply (snd (new_composite w l)) (fst (new_composite w l)) t
     = apply_actions (lists w l) t"
  by (simp add: composite_apply_def new_composite_def new_list_def Let_def)

text \<open>
  C8. A custom minifier over the list at address \<open>l\<close> gives, in any world, what the
  composite of the list's content in that world gives: after the caller appends an
  action, or replaces the content, \<open>minify\<close> applies the new content. Each call builds
  a composite that is a new object: the one a second call builds differs from the one of
  the first. And when the list is empty, \<open>minify\<close> returns its input.
\<close>

theorem custom_minifier_rebuilds:
  "fst (custom_minify (create_custom_minifier name extensions l) w t)
     = apply_action (CompositeMinificationAction (lists w l)) t
   \<and> fst (custom_minify (create_custom_minifier name extensions l) (list_append w l a) t)
     = apply_action (CompositeMinificationAction (lists w l @ [a])) t
   \<and> fst (custom_minify (create_custom_minifier name extensions l)
            (w\<lparr>lists := (lists w)(l := as)\<rparr>) t)
     = apply_action (CompositeMinificationAction as) t
   \<and> fst (new_composite (snd (custom_minify (create_custom_minifier name extensions l) w t)) l)
     \<noteq> fst (new_composite w l)
   \<and> fst (custom_minify (create_custom_minifier name extensions l)
            (w\<lparr>lists := (lists w)(l := [])\<rparr>) t) = Inr t"
proof -
  let ?m = "create_custom_minifier name extensions l"
  have 1: "fst (custom_minify ?m w' t) = apply_actions (lists w' l) t" for w'
    using composite_apply_new [of w' l t]
    by (simp add: custom_minify_def create_custom_minifier_def split_beta)
  have 2: "snd (custom_minify ?m w t) = snd (new_composite w l)"
    by (simp add: custom_minify_def create_custom_minifier_def split_beta)
  have "comp_id (fst (new_composite w l)) < next_addr (snd (new_composite w l))"
    using new_composite_id by simp
  moreover have "next_addr (snd (new_composite w l))
      \<le> comp_id (fst (new_composite (snd (new_composite w l)) l))"
    using new_composite_id by simp
  ultimately have 3:
    "fst (new_composite (snd (custom_minify ?m w t)) l) \<noteq> fst (new_composite w l)"
    unfolding 2 by auto
  from 1 3 show ?thesis by (simp add: list_append_def)
qed

section \<open>The action factory\<close>

lemmas class_defs =
  class_WhitespaceReductionAction_def class_CommentRemovalAction_def
  class_EmptyLineRemovalAction_def class_OperatorSpaceRemovalAction_def
  class_LineJoiningAction_def

lemma class_no_ValueError:
  "c \<in> set (map snd action_classes) \<Longrightarrow> c kw \<noteq> Inl (ValueError msg)"
  by (auto simp: action_classes_def class_defs call_with_def split: if_splits)

lemma action_classes_keys:
  "(map_of action_classes action_type = None)
      = (action_type \<notin> set [''whitespace'', ''comments'', ''empty_lines'', ''operators'',
                              ''line_joining''])"
  by (simp add: action_classes_def)

text \<open>
  C7, as the claim states it, at the empty name: \<open>create_action("whitespace", name="")\<close>
  returns the action itself, whose name is the class name and not the name supplied.
\<close>

theorem create_action_empty_name:
  "create_action ''whitespace'' (Some '''') no_kwargs = Inr (WhitespaceReductionAction False)
   \<and> action_name (WhitespaceReductionAction False) \<noteq> ''''"
  by (simp add: create_action_def action_classes_def class_WhitespaceReductionAction_def
      call_with_def given_def no_kwargs_def bind_result_def)

text \<open>
  C7, amended. \<open>create_action\<close> fails with the error for an unknown action type (a
  \<open>ValueError\<close> whose message names the type) exactly when the type is not one of the
  five recognized ones. When a name that is not empty is supplied and an action is
  returned, that action is the wrapper of the action the same call without a name
  returns: its name is the supplied name and its \<open>apply\<close> gives what the underlying
  action gives, on every text.
\<close>

theorem create_action_name:
  "((\<exists>msg. create_action action_type name kw = Inl (ValueError msg))
      = (action_type \<notin> set [''whitespace'', ''comments'', ''empty_lines'', ''operators'',
                              ''line_joining'']))
   \<and> (action_type \<notin> set [''whitespace'', ''comments'', ''empty_lines'', ''operators'',
                              ''line_joining'']
        \<longrightarrow> create_action action_type name kw
              = Inl (ValueError (''Unknown action type: '' @ action_type)))
   \<and> (n \<noteq> [] \<and> create_action action_type (Some n) kw = Inr b \<longrightarrow>
        action_name b = n
        \<and> (\<exists>a. create_action action_type None kw = Inr a \<and> b = NamedAction n a
                \<and> apply_action b t = apply_action a t))"
proof (cases "map_of action_classes action_type")
  case None
  with action_classes_keys [of action_type] show ?thesis by (simp add: create_action_def)
next
  case (Some c)
  then have "c \<in> set (map snd action_classes)"
    by (metis map_of_SomeD image_eqI set_map snd_conv)
  from class_no_ValueError [OF this] have nv: "c kw \<noteq> Inl (ValueError msg)" for msg .
  from Some action_classes_keys [of action_type]
  have known: "action_type \<in> set [''whitespace'', ''comments'', ''empty_lines'', ''operators'',
                              ''line_joining'']" by simp
  show ?thesis
  proof (cases "c kw")
    case (Inl e)
    with nv have "\<And>msg. e \<noteq> ValueError msg" by auto
    with Inl Some known show ?thesis
      by (simp add: create_action_def bind_result_def split: option.splits)
  next
    case (Inr a)
    with Some known show ?thesis
      by (auto simp: create_action_def bind_result_def split: option.splits)
  qed
qed

lemma create_whitespace_X:
  "create_action ''whitespace'' (Some ''X'') no_kwargs
       = Inr (NamedAction ''X'' (WhitespaceReductionAction False))"
  by (simp add: create_action_def action_classes_def class_WhitespaceReductionAction_def
      call_with_def given_def no_kwargs_def bind_result_def)

theorem create_action_name_witness:
  "''X'' \<noteq> [] \<and> create_action ''whitespace'' (Some ''X'') no_kwargs
       = Inr (NamedAction ''X'' (WhitespaceReductionAction False))
   \<and> action_name (NamedAction ''X'' (WhitespaceReductionAction False)) = ''X''
   \<and> (\<exists>a. create_action ''whitespace'' None no_kwargs = Inr a
          \<and> apply_action (NamedAction ''X'' (WhitespaceReductionAction False)) ''a  b''
              = apply_action a ''a  b'')"
proof -
  note t = create_action_name [where action_type = "''whitespace''" and n = "''X''"
      and kw = no_kwargs and b = "NamedAction ''X'' (WhitespaceReductionAction False)"
      and t = "''a  b''" and name = None]
  have x: "''X'' \<noteq> []" by simp
  from t have "''X'' \<noteq> [] \<and> create_action ''whitespace'' (Some ''X'') no_kwargs
       = Inr (NamedAction ''X'' (WhitespaceReductionAction False)) \<longrightarrow>
        action_name (NamedAction ''X'' (WhitespaceReductionAction False)) = ''X''
        \<and> (\<exists>a. create_action ''whitespace'' None no_kwargs = Inr a
                \<and> NamedAction ''X'' (WhitespaceReductionAction False) = NamedAction ''X'' a
                \<and> apply_action (NamedAction ''X'' (WhitespaceReductionAction False)) ''a  b''
                    = apply_action a ''a  b'')"
    by (rule conjunct2 [OF conjunct2])
  with x create_whitespace_X show ?thesis by blast
qed

section \<open>Project minification\<close>

lemma execute_written:
  "execute job fs = Inr (done, fs1)
     \<Longrightarrow> length (written fs1) = length (written fs) + (if done then 1 else 0)
         \<and> (\<not> done \<longrightarrow> fs1 = fs)"
  by (auto simp: execute_def bind_result_def write_file_def split: sum.splits if_splits)

lemma process_file_counts:
  assumes "process_file reg exts suffix foldername filename (p, s, fs) = (p', s', fs')"
  shows "s' = s + (if contains filename ''.min.'' then 1 else 0)"
    and "length (written fs') + p = length (written fs) + p'"
proof -
  show "s' = s + (if contains filename ''.min.'' then 1 else 0)"
    using assms
    by (auto simp: process_file_def Let_def split: if_splits option.splits sum.splits prod.splits)
  show "length (written fs') + p = length (written fs) + p'"
    using assms
    by (auto simp: process_file_def Let_def dest!: execute_written
        split: if_splits option.splits sum.splits prod.splits)
qed

lemma fold_process_file_counts:
  "fold (process_file reg exts suffix foldername) filenames (p, s, fs) = (p', s', fs')
     \<Longrightarrow> s' = s + length (filter (\<lambda>filename. contains filename ''.min.'') filenames)
         \<and> length (written fs') + p = length (written fs) + p'"
proof (induction filenames arbitrary: p s fs)
  case Nil
  then show ?case by simp
next
  case (Cons f fls)
  obtain p1 s1 fs1 where st: "process_file reg exts suffix foldername f (p, s, fs) = (p1, s1, fs1)"
    by (metis prod_cases3)
  with Cons.prems have "fold (process_file reg exts suffix foldername) fls (p1, s1, fs1) = (p', s', fs')"
    by simp
  from Cons.IH [OF this] process_file_counts [OF st] show ?case by auto
qed

lemma walk_loop_counts:
  "walk_loop reg skips exts suffix walk (p, s, fs) = (p', s', fs')
     \<Longrightarrow> s' = s + length (filter (\<lambda>(foldername, filename). contains filename ''.min.'')
                          (walked_files skips walk))
         \<and> length (written fs') + p = length (written fs) + p'"
proof (induction walk arbitrary: p s fs)
  case Nil
  then show ?case by (simp add: walked_files_def)
next
  case (Cons e walk)
  obtain foldername subfolders filenames where e: "e = (foldername, subfolders, filenames)"
    by (metis prod_cases3)
  show ?case
  proof (cases "skip_this_dir skips foldername")
    case True
    with Cons.prems e have "walk_loop reg skips exts suffix walk (p, s, fs) = (p', s', fs')"
      by simp
    from Cons.IH [OF this] True e show ?thesis by (simp add: walked_files_def)
  next
    case False
    obtain p1 s1 fs1 where st:
      "fold (process_file reg exts suffix foldername) filenames (p, s, fs) = (p1, s1, fs1)"
      by (metis prod_cases3)
    with Cons.prems e False
    have "walk_loop reg skips exts suffix walk (p1, s1, fs1) = (p', s', fs')" by simp
    from Cons.IH [OF this] fold_process_file_counts [OF st] False e
    show ?thesis by (simp add: walked_files_def filter_map o_def)
  qed
qed

lemma process_file_identical:
  assumes "\<not> contains filename ''.min.''"
    and "output_identical reg suffix fs foldername filename"
  shows "process_file reg exts suffix foldername filename (p, s, fs) = (p, s, fs)"
  using assms
  by (auto simp: process_file_def output_identical_def execute_def new_MinificationJob_def
      bind_result_def Let_def split: option.splits sum.splits)

lemma minify_project_counts_any_suffix:
  assumes a: "minify_project self walk languages extensions suffix files_to_skip fs
       = ((processed, skipped), self1, fs1)"
  shows "skipped = length (filter (\<lambda>(foldername, filename). contains filename ''.min.'')
                          (walked_files (pm_files_to_skip self1) walk))"
    and "length (written fs1) = length (written fs) + processed"
proof -
  define self2 where "self2 = (case files_to_skip of
                     None \<Rightarrow> self
                   | Some xs \<Rightarrow>
                       (if xs = [] then self
                        else self\<lparr>pm_files_to_skip := pm_files_to_skip self @ xs\<rparr>))"
  from a have s: "self1 = self2"
    and w: "walk_loop (pm_registry self2) (pm_files_to_skip self2)
              (get_extensions_to_process (pm_registry self2) languages extensions)
              suffix walk (0, 0, fs) = (processed, skipped, fs1)"
    by (auto simp: minify_project_def Let_def self2_def split: prod.splits)
  from walk_loop_counts [OF w] s
  show "skipped = length (filter (\<lambda>(foldername, filename). contains filename ''.min.'')
                          (walked_files (pm_files_to_skip self1) walk))"
    and "length (written fs1) = length (written fs) + processed" by auto
qed

lemmas example_defs =
  example_minifier_def example_registry_def example_project_def example_fs_def
  example_walk_def

lemmas project_defs =
  minify_project_def new_ProjectMinifier_def get_extensions_to_process_def
  get_supported_extensions_def register_minifier_def skip_this_dir_def process_file_def
  get_minifier_for_extension_def new_MinificationJob_def get_minified_path_def
  execute_def read_file_def write_file_def file_exists_def bind_result_def
  path_join_def splitext_def rfind_def splitext_loop.simps lower_def lower_char_def
  upper_chars_def lower_chars_def empty_line_removal_def
  strip_def lstrip_def rstrip_def isspace_def whitespace_chars_def endswith_def

lemma example_run:
  "fst (minify_project example_project example_walk None None ''.min'' None example_fs)
     = (1, 1)"
  by (simp add: example_defs project_defs Let_def)

lemma example_run_written:
  "written (snd (snd (minify_project example_project example_walk None None ''.min'' None
      example_fs))) = [(''p/b.min.py'', ''y'')]"
  by (simp add: example_defs project_defs Let_def)

lemma example_identical:
  "output_identical example_registry ''.min'' example_fs ''p'' ''a.py''"
  by (simp add: output_identical_def example_defs project_defs Let_def)

text \<open>
  C9, as the claim states it, on the example project. The folder holds \<open>a.py\<close>, whose
  output \<open>a.min.py\<close> exists with identical content, the file \<open>a.min.py\<close> itself, which
  carries the marker, and \<open>b.py\<close>. In the claim's sense two eligible files are skipped;
  the run writes one file and returns \<open>(1, 1)\<close>: the file with identical output is not
  counted.
\<close>

theorem minify_project_skipped_counterexample:
  "fst (minify_project example_project example_walk None None ''.min'' None example_fs)
     = (1, 1)
   \<and> spec_skipped_count (pm_registry example_project)
        (get_extensions_to_process (pm_registry example_project) None None) ''.min''
        example_fs (walked_files (pm_files_to_skip example_project) example_walk) = 2"
  by (simp add: spec_skipped_count_def walked_files_def output_identical_def
      example_defs project_defs Let_def)

text \<open>
  C9, amended. With the suffix \<open>.min\<close>, the second number \<open>minify_project\<close> returns is
  the number of files, in the folders the walk yields and does not skip, whose name
  contains \<open>.min.\<close>, and the first is the number of files written during the run. A
  file without the marker whose output already exists with identical content is passed
  over: nothing is written for it and neither number changes.
\<close>

theorem minify_project_counts:
  "(minify_project self walk languages extensions ''.min'' files_to_skip fs
       = ((processed, skipped), self1, fs1) \<longrightarrow>
      skipped = length (filter (\<lambda>(foldername, filename). contains filename ''.min.'')
                          (walked_files (pm_files_to_skip self1) walk))
      \<and> length (written fs1) = length (written fs) + processed)
   \<and> (\<not> contains filename ''.min.''
        \<and> output_identical reg suffix fs foldername filename \<longrightarrow>
      process_file reg exts suffix foldername filename (p, s, fs) = (p, s, fs))"
proof (intro conjI impI)
  assume a: "minify_project self walk languages extensions ''.min'' files_to_skip fs
       = ((processed, skipped), self1, fs1)"
  from minify_project_counts_any_suffix [OF a]
  show "skipped = length (filter (\<lambda>(foldername, filename). contains filename ''.min.'')
                          (walked_files (pm_files_to_skip self1) walk))"
    and "length (written fs1) = length (written fs) + processed" .
next
  assume "\<not> contains filename ''.min.'' \<and> output_identical reg suffix fs foldername filename"
  then show "process_file reg exts suffix foldername filename (p, s, fs) = (p, s, fs)"
    by (intro process_file_identical) auto
qed

theorem minify_project_counts_witness:
  "minify_project example_project example_walk None None ''.min'' None example_fs
     = ((1, 1),
        fst (snd (minify_project example_project example_walk None None ''.min'' None
                    example_fs)),
        snd (snd (minify_project example_project example_walk None None ''.min'' None
                    example_fs)))
   \<and> (1::nat) = length (filter (\<lambda>(foldername, filename). contains filename ''.min.'')
         (walked_files (pm_files_to_skip
            (fst (snd (minify_project example_project example_walk None None ''.min'' None
                         example_fs)))) example_walk))
   \<and> length (written (snd (snd (minify_project example_project example_walk None None
                ''.min'' None example_fs)))) = length (written example_fs) + 1
   \<and> \<not> contains ''a.py'' ''.min.''
   \<and> output_identical example_registry ''.min'' example_fs ''p'' ''a.py''
   \<and> process_file example_registry [''.py''] ''.min'' ''p'' ''a.py'' (0, 0, example_fs)
       = (0, 0, example_fs)"
proof -
  let ?X = "minify_project example_project example_walk None None ''.min'' None example_fs"
  have h1: "?X = ((1, 1), fst (snd ?X), snd (snd ?X))"
    using example_run by (metis prod.collapse)
  have h2: "\<not> contains ''a.py'' ''.min.''" by simp
  note h3 = example_identical
  from minify_project_counts [where self = example_project and walk = example_walk
      and languages = None and extensions = None and suffix = "''.min''"
      and files_to_skip = None and fs = example_fs and processed = 1 and skipped = 1
      and ?self1.0 = "fst (snd ?X)" and ?fs1.0 = "snd (snd ?X)"
      and filename = "''a.py''" and reg = example_registry and foldername = "''p''"
      and exts = "[''.py'']" and p = 0 and s = 0]
    h1 h2 h3
  show ?thesis by blast
qed


end
